theory Spec2Isabelle
  imports Main
begin

section \<open>Values, faults and outcomes\<close>

text \<open>
  A shallow embedding of \<^verbatim>\<open>dist/AWSUtil/DynamoDB/DynamoDbClientWrapper.js\<close> and
  \<^verbatim>\<open>dist/AWSUtil/DynamoDB/dynamodb-types.js\<close>.

  Key and attribute values are the \<^verbatim>\<open>string | number | boolean\<close> of the type declarations;
  numbers are integers. A marshalled or unmarshalled attribute map is an association list.
  A JavaScript \<^verbatim>\<open>Error\<close> is its \<^verbatim>\<open>name\<close> and its \<^verbatim>\<open>message\<close>.
\<close>

datatype keyval = VStr string | VNum int | VBool bool

type_synonym attrs = "(string \<times> keyval) list"

datatype fault = Fault (fault_name: string) (fault_message: string)

definition ArgumentError :: "string \<Rightarrow> fault" where
  "ArgumentError message = Fault ''ArgumentError'' message"

definition Error :: "string \<Rightarrow> fault" where
  "Error message = Fault ''Error'' message"

text \<open>
  An \<^verbatim>\<open>async\<close> method either returns, throws, or is still inside one of its unbounded loops
  when the fuel given to the model is used up.
\<close>

datatype 'a outcome = Returned 'a | Threw fault | OutOfFuel

text \<open>JavaScript truthiness of the optional values the code tests with \<^verbatim>\<open>if (x)\<close>.\<close>

fun truthy_string :: "string option \<Rightarrow> bool" where
  "truthy_string None = False"
| "truthy_string (Some s) = (s \<noteq> [])"

fun truthy_bool :: "bool option \<Rightarrow> bool" where
  "truthy_bool None = False"
| "truthy_bool (Some b) = b"

fun truthy_keyval :: "keyval option \<Rightarrow> bool" where
  "truthy_keyval None = False"
| "truthy_keyval (Some (VStr s)) = (s \<noteq> [])"
| "truthy_keyval (Some (VNum n)) = (n \<noteq> 0)"
| "truthy_keyval (Some (VBool b)) = b"

text \<open>\<^verbatim>\<open>obj[k] = v\<close> on an object used as a dictionary.\<close>

fun assign_key :: "string \<Rightarrow> 'v \<Rightarrow> (string \<times> 'v) list \<Rightarrow> (string \<times> 'v) list" where
  "assign_key k v [] = [(k, v)]"
| "assign_key k v ((k', v') # m) = (if k' = k then (k, v) # m else (k', v') # assign_key k v m)"

text \<open>\<^verbatim>\<open>Object.assign(target, source)\<close>.\<close>

fun object_assign :: "(string \<times> 'v) list \<Rightarrow> (string \<times> 'v) list \<Rightarrow> (string \<times> 'v) list" where
  "object_assign target [] = target"
| "object_assign target ((k, v) # source) = object_assign (assign_key k v target) source"

section \<open>Items (dynamodb-types.js)\<close>

record global_secondary_index =
  IndexName :: string
  IndexKeySchema :: "(string \<times> string) list"
  Projection :: string

text \<open>
  An instance of a class that extends \<^verbatim>\<open>DynamoDbItem\<close>. The abstract methods are fields that
  the concrete class fixes; \<open>version\<close> is \<open>None\<close> for a class whose \<^verbatim>\<open>Version()\<close> returns
  \<^verbatim>\<open>undefined\<close> and the \<^verbatim>\<open>version\<close> property of a \<^verbatim>\<open>DynamoDbVersionedItem\<close> otherwise;
  \<open>properties\<close> holds the other enumerable properties. The timestamps \<^verbatim>\<open>createdAt\<close> and
  \<^verbatim>\<open>updatedAt\<close> read the clock and are left out. A constructor \<^verbatim>\<open>Type\<close> is given as the
  instance \<^verbatim>\<open>new Type()\<close> it builds.
\<close>

record item =
  BaseTableName :: string
  IdFieldName :: string
  RangeFieldName :: "string option"
  TTLFieldName :: "string option"
  LocalSecondaryIndexes :: "global_secondary_index list option"
  GlobalSecondaryIndexes :: "global_secondary_index list option"
  OverriddenAttributeDefinitions :: "(string \<times> string) list option"
  version :: "int option"
  properties :: attrs

definition INITIAL_VERSION_NUMBER :: int where
  "INITIAL_VERSION_NUMBER = - 1"

text \<open>\<^verbatim>\<open>Version()\<close> without argument.\<close>

definition Version :: "item \<Rightarrow> int option" where
  "Version this = version this"

text \<open>
  \<^verbatim>\<open>Version(version)\<close> with a number: the setter of \<^verbatim>\<open>DynamoDbVersionedItem\<close>. On a class
  without versioning (\<^verbatim>\<open>DynamoDbExpiringItem\<close>) the call changes nothing.
\<close>

definition SetVersion :: "int \<Rightarrow> item \<Rightarrow> fault + item" where
  "SetVersion v this =
     (case version this of
        None \<Rightarrow> Inr this
      | Some cur \<Rightarrow>
          if cur = 0 \<and> v = INITIAL_VERSION_NUMBER then Inr (this\<lparr>version := Some v\<rparr>)
          else if v < 0 then Inl (Error ''version must be a positive integer'')
          else Inr (this\<lparr>version := Some v\<rparr>))"

definition IncrementVersion :: "item \<Rightarrow> fault + item" where
  "IncrementVersion this =
     (case Version this of
        None \<Rightarrow> Inl (Error ''Version is undefined indicating this is not a Versioned item, therefore IncrementVersion is not allowed.'')
      | Some v \<Rightarrow> SetVersion (v + 1) this)"

text \<open>
  \<^verbatim>\<open>Assign(source)\<close> is \<^verbatim>\<open>Object.assign(this, source)\<close>: a numeric \<^verbatim>\<open>version\<close> attribute lands
  in the version property of a versioned item, every attribute in the properties.
\<close>

definition Assign :: "item \<Rightarrow> attrs \<Rightarrow> item" where
  "Assign this source =
     this\<lparr>properties := object_assign (properties this) source,
          version := (case (version this, map_of source ''version'') of
                        (Some _, Some (VNum v)) \<Rightarrow> Some v
                      | _ \<Rightarrow> version this)\<rparr>"

definition AttributeDefinitions :: "item \<Rightarrow> (string \<times> string) list" where
  "AttributeDefinitions this =
     (case OverriddenAttributeDefinitions this of
        Some defs \<Rightarrow> defs
      | None \<Rightarrow>
          [(IdFieldName this, ''S'')] @
          (if truthy_string (RangeFieldName this) then [(the (RangeFieldName this), ''S'')] else []))"

definition KeySchema :: "item \<Rightarrow> (string \<times> string) list" where
  "KeySchema this =
     [(IdFieldName this, ''HASH'')] @
     (if truthy_string (RangeFieldName this) then [(the (RangeFieldName this), ''RANGE'')] else [])"

text \<open>
  \<^verbatim>\<open>marshall(item, options)\<close> of the marshaller collaborator: the enumerable properties of the
  instance, the version property among them. The marshaller is taken to accept every item
  and every key (it does not throw).
\<close>

definition marshall_item :: "item \<Rightarrow> attrs" where
  "marshall_item this =
     (case version this of
        None \<Rightarrow> properties this
      | Some v \<Rightarrow> assign_key ''version'' (VNum v) (properties this))"

section \<open>The storage client\<close>

record table_description =
  td_TableName :: "string option"
  td_TableStatus :: "string option"
  td_GlobalSecondaryIndexes :: "global_secondary_index list option"

record create_schema_options =
  BillingMode :: "string option"
  StreamEnabled :: "bool option"
  Tags :: "(string \<times> string) list option"

record create_table_input =
  cti_TableName :: string
  cti_AttributeDefinitions :: "(string \<times> string) list"
  cti_KeySchema :: "(string \<times> string) list"
  cti_LocalSecondaryIndexes :: "global_secondary_index list option"
  cti_GlobalSecondaryIndexes :: "global_secondary_index list option"
  cti_BillingMode :: string
  cti_StreamEnabled :: bool
  cti_Tags :: "(string \<times> string) list option"

datatype index_update = Delete string | Create global_secondary_index

text \<open>The options of \<^verbatim>\<open>GetItem\<close>, \<^verbatim>\<open>GetItems\<close>, \<^verbatim>\<open>Query\<close> and \<^verbatim>\<open>Scan\<close>.\<close>

record read_options =
  Required :: "bool option"
  ConsistentRead :: "bool option"
  IndexName_opt :: "string option"
  IndexPartitionKeyFieldName :: "string option"
  IndexRangeFieldName :: "string option"
  IgnoreTableNotFound :: "bool option"
  Limit :: "nat option"
  FilterExpression :: "string option"
  ExpressionAttributeValues :: "attrs option"
  ExclusiveStartKey :: "keyval option"
  ScanIndexForward :: "bool option"

text \<open>The input of a Query or Scan command: the spread options and the computed members.\<close>

record read_params =
  p_options :: read_options
  p_TableName :: string
  p_KeyConditionExpression :: "string option"
  p_FilterExpression :: "string option"
  p_ExpressionAttributeValues :: "attrs option"
  p_ExpressionAttributeNames :: "(string \<times> string) list option"
  p_ExclusiveStartKey :: "attrs option"

record put_item_input =
  put_TableName :: string
  put_Item :: attrs
  put_ConditionExpression :: "string option"
  put_ExpressionAttributeValues :: "attrs option"

datatype command =
    is_ListTables: ListTablesCommand
  | is_DescribeTable: DescribeTableCommand "string option"
  | is_CreateTable: CreateTableCommand create_table_input
  | is_UpdateTimeToLive: UpdateTimeToLiveCommand "string option" string
  | is_UpdateTable: UpdateTableCommand string "(string \<times> string) list option" index_update
  | is_DeleteItem: DeleteItemCommand string attrs string
  | is_Scan: ScanCommand read_params
  | is_Query: QueryCommand read_params
  | is_GetItem: GetItemCommand string attrs "bool option"
  | is_PutItem: PutItemCommand put_item_input

text \<open>
  The output object of a command, read by property as the code does: a property the service
  did not set is \<^verbatim>\<open>undefined\<close>. \<open>TimeToLiveEnabled\<close> is
  \<^verbatim>\<open>TimeToLiveSpecification?.Enabled\<close>.
\<close>

record response =
  TableNames :: "string list option"
  Table :: "table_description option"
  TableDescription :: "table_description option"
  TimeToLiveEnabled :: "bool option"
  Attributes :: "attrs option"
  Items :: "attrs list option"
  LastEvaluatedKey :: "attrs option"
  Item :: "attrs option"

definition empty_response :: response where
  "empty_response =
     \<lparr>TableNames = None, Table = None, TableDescription = None, TimeToLiveEnabled = None,
      Attributes = None, Items = None, LastEvaluatedKey = None, Item = None\<rparr>"

datatype log_entry =
    LogError string "fault option"
  | LogWarn string
  | LogInfo string

text \<open>
  The wrapper instance: its configuration and the storage client, which is any function from
  a command and the state of the service to a result (a fault or an output) and the next
  state. Nothing is assumed of the client.
\<close>

record 'srv wrapper =
  TablePrefix :: "string option"
  debugMode :: bool
  delayAfterCreateTable :: nat
  client_send :: "command \<Rightarrow> 'srv \<Rightarrow> (fault + response) \<times> 'srv"

text \<open>
  What an operation changes: the state of the service, the record of every call made to the
  client with its result (in order), and the log (\<^verbatim>\<open>error\<close>, \<^verbatim>\<open>warn\<close> and \<^verbatim>\<open>info\<close> entries;
  the \<^verbatim>\<open>debug\<close> entries, the tracing subsegments and the waits are left out).
\<close>

record 'srv world =
  server :: 'srv
  calls :: "(command \<times> (fault + response)) list"
  log :: "log_entry list"

definition DynamoDbClient_send ::
  "'srv wrapper \<Rightarrow> command \<Rightarrow> 'srv world \<Rightarrow> (fault + response) \<times> 'srv world" where
  "DynamoDbClient_send env c w =
     (case client_send env c (server w) of
        (r, s') \<Rightarrow> (r, w\<lparr>server := s', calls := calls w @ [(c, r)]\<rparr>))"

definition write_log :: "log_entry \<Rightarrow> 'srv world \<Rightarrow> 'srv world" where
  "write_log e w = w\<lparr>log := log w @ [e]\<rparr>"

section \<open>Table operations (DynamoDbClientWrapper.js)\<close>

definition GenerateTableName :: "'srv wrapper \<Rightarrow> item \<Rightarrow> string" where
  "GenerateTableName env it =
     (if truthy_string (TablePrefix env) then the (TablePrefix env) @ ''.'' @ BaseTableName it
      else BaseTableName it)"

definition CreateSchema ::
  "'srv wrapper \<Rightarrow> item \<Rightarrow> create_schema_options option \<Rightarrow> create_table_input" where
  "CreateSchema env type options =
     \<lparr>cti_TableName = GenerateTableName env type,
      cti_AttributeDefinitions = AttributeDefinitions type,
      cti_KeySchema = KeySchema type,
      cti_LocalSecondaryIndexes = LocalSecondaryIndexes type,
      cti_GlobalSecondaryIndexes = GlobalSecondaryIndexes type,
      cti_BillingMode =
        (case options of Some opts \<Rightarrow> (case BillingMode opts of Some b \<Rightarrow> b | None \<Rightarrow> ''PAY_PER_REQUEST'')
         | None \<Rightarrow> ''PAY_PER_REQUEST''),
      cti_StreamEnabled =
        (case options of Some opts \<Rightarrow> (case StreamEnabled opts of Some b \<Rightarrow> b | None \<Rightarrow> False)
         | None \<Rightarrow> False),
      cti_Tags = (case options of Some opts \<Rightarrow> Tags opts | None \<Rightarrow> None)\<rparr>"

definition ListTables :: "'srv wrapper \<Rightarrow> 'srv world \<Rightarrow> string list outcome \<times> 'srv world" where
  "ListTables env w =
     (case DynamoDbClient_send env ListTablesCommand w of
        (Inr out, w') \<Rightarrow> (Returned (case TableNames out of Some names \<Rightarrow> names | None \<Rightarrow> []), w')
      | (Inl error, w') \<Rightarrow> (Threw error, write_log (LogError [] (Some error)) w'))"

definition DescribeTable ::
  "'srv wrapper \<Rightarrow> string \<Rightarrow> 'srv world \<Rightarrow> table_description option outcome \<times> 'srv world" where
  "DescribeTable env tableName w =
     (case DynamoDbClient_send env (DescribeTableCommand (Some tableName)) w of
        (Inr out, w') \<Rightarrow>
          (case Table out of
             Some t \<Rightarrow> if td_TableName t = Some tableName then (Returned (Some t), w')
                       else (Returned None, w')
           | None \<Rightarrow> (Returned None, w'))
      | (Inl error, w') \<Rightarrow>
          if fault_name error \<noteq> ''ResourceNotFoundException''
          then (Threw error, write_log (LogError [] (Some error)) w')
          else (Returned None, w'))"

text \<open>
  The loop of \<^verbatim>\<open>CreateTable\<close> that waits for the status \<^verbatim>\<open>ACTIVE\<close>. It has no bound in the
  source; the first argument bounds the number of polls, and \<open>OutOfFuel\<close> says that the table
  was not active after that many.
\<close>

fun WaitForActive ::
  "nat \<Rightarrow> 'srv wrapper \<Rightarrow> bool \<Rightarrow> table_description \<Rightarrow> 'srv world
     \<Rightarrow> table_description outcome \<times> 'srv world" where
  "WaitForActive 0 env waitForActive tableDescription w =
     (if waitForActive \<and> td_TableStatus tableDescription \<noteq> Some ''ACTIVE'' then (OutOfFuel, w)
      else (Returned tableDescription, w))"
| "WaitForActive (Suc fuel) env waitForActive tableDescription w =
     (if waitForActive \<and> td_TableStatus tableDescription \<noteq> Some ''ACTIVE'' then
        (case DynamoDbClient_send env (DescribeTableCommand (td_TableName tableDescription)) w of
           (Inr data, w') \<Rightarrow>
             (case Table data of
                Some t \<Rightarrow> WaitForActive fuel env waitForActive t w'
              | None \<Rightarrow>
                  (Threw (Error ''Unable to describe table''),
                   write_log (LogError ''CreateTable: Waiting for ACTIVE''
                                (Some (Error ''Unable to describe table''))) w'))
         | (Inl error, w') \<Rightarrow>
             (Threw error, write_log (LogError ''CreateTable: Waiting for ACTIVE'' (Some error)) w'))
      else (Returned tableDescription, w))"

text \<open>The last step of \<^verbatim>\<open>CreateTable\<close>: enabling the time to live.\<close>

definition EnableTTL ::
  "'srv wrapper \<Rightarrow> string option \<Rightarrow> table_description \<Rightarrow> 'srv world
     \<Rightarrow> table_description option outcome \<times> 'srv world" where
  "EnableTTL env ttlAttributeName tableDescription w =
     (if truthy_string ttlAttributeName then
        (case DynamoDbClient_send env
                (UpdateTimeToLiveCommand (td_TableName tableDescription) (the ttlAttributeName)) w of
           (Inr data, w') \<Rightarrow>
             if \<not> truthy_bool (TimeToLiveEnabled data)
             then (Threw (Error ''Unable to enable TTL''),
                   write_log (LogError ''CreateTable:EnableTTL'' (Some (Error ''Unable to enable TTL''))) w')
             else (Returned (Some tableDescription), w')
         | (Inl error, w') \<Rightarrow>
             (Threw error, write_log (LogError ''CreateTable:EnableTTL'' (Some error)) w'))
      else (Returned (Some tableDescription), w))"

definition CreateTable ::
  "nat \<Rightarrow> 'srv wrapper \<Rightarrow> create_table_input \<Rightarrow> bool \<Rightarrow> string option \<Rightarrow> 'srv world
     \<Rightarrow> table_description option outcome \<times> 'srv world" where
  "CreateTable fuel env input waitForActive ttlAttributeName w =
     (if ttlAttributeName = Some [] then
        (Threw (ArgumentError ''ttlAttributeName cannot be an empty string''), w)
      else
        (case DynamoDbClient_send env (CreateTableCommand input) w of
           (Inl error, w') \<Rightarrow> (Returned None, write_log (LogError ''CreateTable'' (Some error)) w')
         | (Inr data, w') \<Rightarrow>
             (case TableDescription data of
                None \<Rightarrow>
                  (Returned None,
                   write_log (LogError ''CreateTable'' (Some (Error ''Unable to create table''))) w')
              | Some tableDescription \<Rightarrow>
                  (case WaitForActive fuel env waitForActive tableDescription w' of
                     (Returned active, w'') \<Rightarrow>
                       EnableTTL env ttlAttributeName active
                         (if delayAfterCreateTable env \<noteq> 0 then write_log (LogInfo ''Pausing'') w''
                          else w'')
                   | (Threw error, w'') \<Rightarrow> (Threw error, w'')
                   | (OutOfFuel, w'') \<Rightarrow> (OutOfFuel, w'')))))"

definition CreateTableIfNotExists ::
  "nat \<Rightarrow> 'srv wrapper \<Rightarrow> create_table_input \<Rightarrow> bool \<Rightarrow> string option \<Rightarrow> 'srv world
     \<Rightarrow> table_description option outcome \<times> 'srv world" where
  "CreateTableIfNotExists fuel env input waitForActive ttlAttributeName w =
     (case ListTables env w of
        (Returned names, w') \<Rightarrow>
          if list_ex (\<lambda>t. t = cti_TableName input) names
          then DescribeTable env (cti_TableName input) w'
          else CreateTable fuel env input waitForActive ttlAttributeName w'
      | (Threw error, w') \<Rightarrow> (Threw error, w')
      | (OutOfFuel, w') \<Rightarrow> (OutOfFuel, w'))"

definition InitializeTable ::
  "nat \<Rightarrow> 'srv wrapper \<Rightarrow> item \<Rightarrow> string list option \<Rightarrow> create_schema_options option
     \<Rightarrow> 'srv world \<Rightarrow> unit outcome \<times> 'srv world" where
  "InitializeTable fuel env Type existingTables options w =
     (case (case existingTables of
              Some names \<Rightarrow> (Returned names, w)
            | None \<Rightarrow> ListTables env w) of
        (Threw error, w') \<Rightarrow> (Threw error, w')
      | (OutOfFuel, w') \<Rightarrow> (OutOfFuel, w')
      | (Returned names, w') \<Rightarrow>
          if GenerateTableName env Type \<in> set names
          then (Returned (), write_log (LogInfo ''InitializeTable: Table Exists'') w')
          else
            (case CreateTableIfNotExists fuel env (CreateSchema env Type options) True
                    (TTLFieldName Type) (write_log (LogInfo ''Initialize Table'') w') of
               (Returned None, w'') \<Rightarrow> (Threw (Error ''Fatal Error: Could not create''), w'')
             | (Returned (Some t), w'') \<Rightarrow> (Returned (), w'')
             | (Threw error, w'') \<Rightarrow> (Threw error, w'')
             | (OutOfFuel, w'') \<Rightarrow> (OutOfFuel, w'')))"

text \<open>The two \<^verbatim>\<open>for ... of\<close> loops of \<^verbatim>\<open>UpdateTable\<close>, one update call for each index.\<close>

fun DeleteIndexes ::
  "'srv wrapper \<Rightarrow> string \<Rightarrow> global_secondary_index list option \<Rightarrow> global_secondary_index list
     \<Rightarrow> 'srv world \<Rightarrow> unit outcome \<times> 'srv world" where
  "DeleteIndexes env TableName gsiCurrent [] w = (Returned (), w)"
| "DeleteIndexes env TableName gsiCurrent (gsi # rest) w =
     (if find (\<lambda>c. IndexName c = IndexName gsi) (case gsiCurrent of Some l \<Rightarrow> l | None \<Rightarrow> []) = None then
        (case DynamoDbClient_send env (UpdateTableCommand TableName None (Delete (IndexName gsi))) w of
           (Inl error, w') \<Rightarrow> (Threw error, w')
         | (Inr updated, w') \<Rightarrow> DeleteIndexes env TableName gsiCurrent rest w')
      else DeleteIndexes env TableName gsiCurrent rest w)"

fun CreateIndexes ::
  "'srv wrapper \<Rightarrow> string \<Rightarrow> (string \<times> string) list \<Rightarrow> global_secondary_index list option
     \<Rightarrow> global_secondary_index list \<Rightarrow> 'srv world \<Rightarrow> unit outcome \<times> 'srv world" where
  "CreateIndexes env TableName defs live [] w = (Returned (), w)"
| "CreateIndexes env TableName defs live (gsi # rest) w =
     (if find (\<lambda>c. IndexName c = IndexName gsi) (case live of Some l \<Rightarrow> l | None \<Rightarrow> []) = None then
        (case DynamoDbClient_send env (UpdateTableCommand TableName (Some defs) (Create gsi)) w of
           (Inl error, w') \<Rightarrow> (Threw error, w')
         | (Inr updated, w') \<Rightarrow> CreateIndexes env TableName defs live rest w')
      else CreateIndexes env TableName defs live rest w)"

definition UpdateTable ::
  "'srv wrapper \<Rightarrow> item \<Rightarrow> 'srv world \<Rightarrow> table_description option outcome \<times> 'srv world" where
  "UpdateTable env it w =
     (case DescribeTable env (GenerateTableName env it) w of
        (Threw error, w1) \<Rightarrow> (Threw error, w1)
      | (OutOfFuel, w1) \<Rightarrow> (OutOfFuel, w1)
      | (Returned None, w1) \<Rightarrow> (Threw (Error ''Table Not Found''), w1)
      | (Returned (Some table), w1) \<Rightarrow>
          (case DeleteIndexes env (GenerateTableName env it) (GlobalSecondaryIndexes it)
                  (case td_GlobalSecondaryIndexes table of Some l \<Rightarrow> l | None \<Rightarrow> []) w1 of
             (Threw error, w2) \<Rightarrow> (Threw error, w2)
           | (OutOfFuel, w2) \<Rightarrow> (OutOfFuel, w2)
           | (Returned u, w2) \<Rightarrow>
               (case CreateIndexes env (GenerateTableName env it) (AttributeDefinitions it)
                       (td_GlobalSecondaryIndexes table)
                       (case GlobalSecondaryIndexes it of Some l \<Rightarrow> l | None \<Rightarrow> []) w2 of
                  (Threw error, w3) \<Rightarrow> (Threw error, w3)
                | (OutOfFuel, w3) \<Rightarrow> (OutOfFuel, w3)
                | (Returned u', w3) \<Rightarrow> DescribeTable env (GenerateTableName env it) w3)))"

section \<open>Keys, deleting and reading\<close>

definition CreateKeyMapping :: "item \<Rightarrow> keyval \<Rightarrow> keyval option \<Rightarrow> fault + attrs" where
  "CreateKeyMapping it ident rangeval =
     (case RangeFieldName it of
        None \<Rightarrow> Inr [(IdFieldName it, ident)]
      | Some rangeFieldName \<Rightarrow>
          (case rangeval of
             Some r \<Rightarrow> Inr (assign_key rangeFieldName r [(IdFieldName it, ident)])
           | None \<Rightarrow>
               Inl (ArgumentError ''The IDynamoDbItem defines a RangeFieldName but an undefined range parameter was provided.'')))"

datatype return_value = NONE | ALL_OLD

datatype delete_result = DeletedItem item | Success bool

definition DeleteItem ::
  "'srv wrapper \<Rightarrow> item \<Rightarrow> keyval \<Rightarrow> keyval option \<Rightarrow> return_value \<Rightarrow> 'srv world
     \<Rightarrow> delete_result outcome \<times> 'srv world" where
  "DeleteItem env Type ident rangeval returnValue w =
     (if ident = VStr [] then (Threw (ArgumentError ''id cannot be an empty string''), w)
      else if rangeval = Some (VStr []) then (Threw (ArgumentError ''range cannot be an empty string''), w)
      else
        (case CreateKeyMapping Type ident rangeval of
           Inl error \<Rightarrow> (Threw error, w)
         | Inr Key \<Rightarrow>
             (case DynamoDbClient_send env
                     (DeleteItemCommand (GenerateTableName env Type) Key
                        (if returnValue = ALL_OLD then ''ALL_OLD'' else ''NONE'')) w of
                (Inl error, w') \<Rightarrow> (Threw error, write_log (LogError ''DeleteItem'' (Some error)) w')
              | (Inr response, w') \<Rightarrow>
                  if Attributes response = None \<and> returnValue = ALL_OLD then (Returned (Success False), w')
                  else if returnValue = ALL_OLD then
                    (case Attributes response of
                       None \<Rightarrow> (Threw (Error ''DeleteItem appeared to succeed however no attributes are returned.''), w')
                     | Some a \<Rightarrow> (Returned (DeletedItem (Assign Type a)), w'))
                  else (Returned (Success True), w'))))"

text \<open>
  The \<^verbatim>\<open>do ... while\<close> loop of \<^verbatim>\<open>Scan\<close> and of \<^verbatim>\<open>Query\<close>; the two are the same text but for
  the command, which is the argument \<open>cmd\<close>. One unit of fuel is one page request. The loop
  gives how it ended, and the items accumulated until then, which the \<^verbatim>\<open>catch\<close> block reads.
  \<open>hydrate\<close> is \<^verbatim>\<open>Items.map(i => new Type().Assign(unmarshall(i)))\<close>, or nothing when the page
  has no \<^verbatim>\<open>Items\<close>.
\<close>

definition hydrate :: "item \<Rightarrow> response \<Rightarrow> item list" where
  "hydrate Type result =
     (case Items result of Some page \<Rightarrow> map (Assign Type) page | None \<Rightarrow> [])"

fun ReadPages ::
  "nat \<Rightarrow> 'srv wrapper \<Rightarrow> (read_params \<Rightarrow> command) \<Rightarrow> item \<Rightarrow> nat option \<Rightarrow> read_params
     \<Rightarrow> item list \<Rightarrow> 'srv world \<Rightarrow> unit outcome \<times> item list \<times> 'srv world" where
  "ReadPages 0 env cmd Type limit params items w = (OutOfFuel, items, w)"
| "ReadPages (Suc fuel) env cmd Type limit params items w =
     (case DynamoDbClient_send env (cmd params) w of
        (Inl error, w') \<Rightarrow> (Threw error, items, w')
      | (Inr result, w') \<Rightarrow>
          if LastEvaluatedKey result \<noteq> None \<and>
             (limit = None \<or> length (items @ hydrate Type result) < the limit)
          then ReadPages fuel env cmd Type limit
                 (params\<lparr>p_ExclusiveStartKey := LastEvaluatedKey result\<rparr>)
                 (items @ hydrate Type result) w'
          else (Returned (), items @ hydrate Type result, w'))"

text \<open>
  The \<^verbatim>\<open>catch\<close> block and the final \<^verbatim>\<open>return items\<close> of \<^verbatim>\<open>Scan\<close> and of \<^verbatim>\<open>Query\<close>, the same
  text but for the name of the operation in the log.
\<close>

definition ReadCatch ::
  "'srv wrapper \<Rightarrow> string \<Rightarrow> read_options \<Rightarrow> unit outcome \<times> item list \<times> 'srv world
     \<Rightarrow> item list outcome \<times> 'srv world" where
  "ReadCatch env operation options res =
     (case res of
        (Returned u, items, w) \<Rightarrow> (Returned items, w)
      | (OutOfFuel, items, w) \<Rightarrow> (OutOfFuel, w)
      | (Threw error, items, w) \<Rightarrow>
          if fault_name error = ''ResourceNotFoundException'' then
            (case (if debugMode env
                   then ListTables env
                          (write_log (LogWarn (operation @ '': ResourceNotFoundException - the Table does not exist'')) w)
                   else (Returned [],
                         write_log (LogWarn (operation @ '': ResourceNotFoundException - the Table does not exist'')) w)) of
               (Threw error2, w') \<Rightarrow> (Threw error2, w')
             | (OutOfFuel, w') \<Rightarrow> (OutOfFuel, w')
             | (Returned existingTables, w') \<Rightarrow>
                 if IgnoreTableNotFound options \<noteq> Some True then (Threw error, w')
                 else (Returned items, w'))
          else (Threw error, write_log (LogError (operation @ '': '' @ fault_name error) (Some error)) w))"

definition index_warning :: "'srv wrapper \<Rightarrow> read_options \<Rightarrow> 'srv world \<Rightarrow> 'srv world" where
  "index_warning env options w =
     (if debugMode env \<and> truthy_string (IndexName_opt options) \<and>
         \<not> truthy_string (IndexPartitionKeyFieldName options)
      then write_log (LogWarn ''IndexName is specified but IndexPartitionKeyFieldName is not.'') w
      else w)"

definition partitionKeyName :: "read_options \<Rightarrow> item \<Rightarrow> string" where
  "partitionKeyName options typeShell =
     (case IndexPartitionKeyFieldName options of Some n \<Rightarrow> n | None \<Rightarrow> IdFieldName typeShell)"

definition sortKeyName :: "read_options \<Rightarrow> item \<Rightarrow> string option" where
  "sortKeyName options typeShell =
     (case IndexRangeFieldName options of Some n \<Rightarrow> Some n | None \<Rightarrow> RangeFieldName typeShell)"

definition marshall_start_key :: "read_options \<Rightarrow> item \<Rightarrow> attrs option" where
  "marshall_start_key options typeShell =
     (if truthy_keyval (ExclusiveStartKey options)
      then Some [(partitionKeyName options typeShell, the (ExclusiveStartKey options))]
      else None)"

definition and_join :: "string option \<Rightarrow> string \<Rightarrow> string option" where
  "and_join expression clause =
     (if truthy_string expression then Some (the expression @ '' AND '' @ clause) else Some clause)"

definition ScanParams ::
  "'srv wrapper \<Rightarrow> item \<Rightarrow> keyval option \<Rightarrow> keyval option \<Rightarrow> read_options \<Rightarrow> read_params" where
  "ScanParams env typeShell ident rangeval options =
     (let raw0 = (case ExpressionAttributeValues options of Some vals \<Rightarrow> object_assign [] vals | None \<Rightarrow> []);
          filter1 = (case ident of
                       Some i \<Rightarrow> Some (''#'' @ partitionKeyName options typeShell @ '' = :partitionkeyval'')
                     | None \<Rightarrow> None);
          raw1 = (case ident of Some i \<Rightarrow> assign_key '':partitionkeyval'' i raw0 | None \<Rightarrow> raw0);
          names1 = (case ident of
                      Some i \<Rightarrow> [(''#'' @ partitionKeyName options typeShell, partitionKeyName options typeShell)]
                    | None \<Rightarrow> []);
          filter2 = (case rangeval of
                       Some r \<Rightarrow> and_join filter1 (''#'' @ the (sortKeyName options typeShell) @ '' = :sortkeyval'')
                     | None \<Rightarrow> filter1);
          raw2 = (case rangeval of Some r \<Rightarrow> assign_key '':sortkeyval'' r raw1 | None \<Rightarrow> raw1);
          names2 = (case rangeval of
                      Some r \<Rightarrow> assign_key (''#'' @ the (sortKeyName options typeShell))
                                  (the (sortKeyName options typeShell)) names1
                    | None \<Rightarrow> names1);
          filter3 = (if truthy_string (FilterExpression options)
                     then and_join filter2 (the (FilterExpression options)) else filter2)
      in \<lparr>p_options = options,
          p_TableName = GenerateTableName env typeShell,
          p_KeyConditionExpression = None,
          p_FilterExpression = filter3,
          p_ExpressionAttributeValues = (if raw2 \<noteq> [] then Some raw2 else None),
          p_ExpressionAttributeNames = (if names2 = [] then None else Some names2),
          p_ExclusiveStartKey = marshall_start_key options typeShell\<rparr>)"

definition Scan ::
  "nat \<Rightarrow> 'srv wrapper \<Rightarrow> item \<Rightarrow> keyval option \<Rightarrow> keyval option \<Rightarrow> read_options \<Rightarrow> 'srv world
     \<Rightarrow> item list outcome \<times> 'srv world" where
  "Scan fuel env Type ident rangeval options w =
     (if ident = Some (VStr []) then (Threw (ArgumentError ''id cannot be an empty string''), w)
      else if rangeval = Some (VStr []) then (Threw (ArgumentError ''range cannot be an empty string''), w)
      else if rangeval \<noteq> None \<and> \<not> truthy_string (sortKeyName options Type) then
        (Threw (Error ''Range value was provided but Range Field name cannot be determined.''),
         write_log (LogError ''Range value was provided but Range Field name cannot be determined.'' None)
           (index_warning env options w))
      else
        ReadCatch env ''Scan'' options
          (ReadPages fuel env ScanCommand Type (Limit options)
             (ScanParams env Type ident rangeval options) [] (index_warning env options w)))"

definition QueryParams ::
  "'srv wrapper \<Rightarrow> item \<Rightarrow> keyval \<Rightarrow> keyval option \<Rightarrow> read_options \<Rightarrow> read_params" where
  "QueryParams env typeShell ident rangeval options =
     (let raw0 = (case ExpressionAttributeValues options of Some vals \<Rightarrow> object_assign [] vals | None \<Rightarrow> []);
          raw1 = assign_key '':partitionkeyval'' ident raw0;
          names1 = [(''#'' @ partitionKeyName options typeShell, partitionKeyName options typeShell)];
          condition1 = ''#'' @ partitionKeyName options typeShell @ '' = :partitionkeyval'';
          condition2 = (case rangeval of
                          Some r \<Rightarrow> condition1 @ '' AND #'' @ the (sortKeyName options typeShell) @ '' = :sortkeyval''
                        | None \<Rightarrow> condition1);
          raw2 = (case rangeval of Some r \<Rightarrow> assign_key '':sortkeyval'' r raw1 | None \<Rightarrow> raw1);
          names2 = (case rangeval of
                      Some r \<Rightarrow> assign_key (''#'' @ the (sortKeyName options typeShell))
                                  (the (sortKeyName options typeShell)) names1
                    | None \<Rightarrow> names1)
      in \<lparr>p_options = options,
          p_TableName = GenerateTableName env typeShell,
          p_KeyConditionExpression = Some condition2,
          p_FilterExpression = FilterExpression options,
          p_ExpressionAttributeValues = Some raw2,
          p_ExpressionAttributeNames = Some names2,
          p_ExclusiveStartKey = marshall_start_key options typeShell\<rparr>)"

definition Query ::
  "nat \<Rightarrow> 'srv wrapper \<Rightarrow> item \<Rightarrow> keyval \<Rightarrow> keyval option \<Rightarrow> read_options \<Rightarrow> 'srv world
     \<Rightarrow> item list outcome \<times> 'srv world" where
  "Query fuel env Type ident rangeval options w =
     (if ident = VStr [] then (Threw (ArgumentError ''id cannot be an empty string''), w)
      else if rangeval = Some (VStr []) then (Threw (ArgumentError ''range cannot be an empty string''), w)
      else if rangeval \<noteq> None \<and> \<not> truthy_string (sortKeyName options Type) then
        (Threw (Error ''Range value was provided but Range Field name cannot be determined.''),
         write_log (LogError ''Range value was provided but Range Field name cannot be determined.'' None)
           (index_warning env options w))
      else
        ReadCatch env ''Query'' options
          (ReadPages fuel env QueryCommand Type (Limit options)
             (QueryParams env Type ident rangeval options) [] (index_warning env options w)))"

definition GetItems ::
  "nat \<Rightarrow> 'srv wrapper \<Rightarrow> item \<Rightarrow> keyval option \<Rightarrow> keyval option \<Rightarrow> read_options \<Rightarrow> 'srv world
     \<Rightarrow> item list outcome \<times> 'srv world" where
  "GetItems fuel env type ident rangeval options w =
     (case ident of
        Some i \<Rightarrow> Query fuel env type i rangeval options w
      | None \<Rightarrow> Scan fuel env type None rangeval options w)"

text \<open>The options \<^verbatim>\<open>GetItem\<close> hands to \<^verbatim>\<open>GetItems\<close> when an index is named.\<close>

definition index_read_options :: "read_options \<Rightarrow> read_options" where
  "index_read_options options =
     \<lparr>Required = None, ConsistentRead = ConsistentRead options,
      IndexName_opt = IndexName_opt options,
      IndexPartitionKeyFieldName = IndexPartitionKeyFieldName options,
      IndexRangeFieldName = IndexRangeFieldName options,
      IgnoreTableNotFound = None, Limit = None, FilterExpression = None,
      ExpressionAttributeValues = None, ExclusiveStartKey = None, ScanIndexForward = None\<rparr>"

text \<open>\<^verbatim>\<open>list?.[0]\<close>.\<close>

fun first_or_undefined :: "'a list \<Rightarrow> 'a option" where
  "first_or_undefined [] = None"
| "first_or_undefined (x # xs) = Some x"

definition GetItem ::
  "nat \<Rightarrow> 'srv wrapper \<Rightarrow> item \<Rightarrow> keyval \<Rightarrow> keyval option \<Rightarrow> read_options \<Rightarrow> 'srv world
     \<Rightarrow> item option outcome \<times> 'srv world" where
  "GetItem fuel env Type ident rangeval options w =
     (if ident = VStr [] then (Threw (ArgumentError ''id cannot be an empty string''), w)
      else if rangeval = Some (VStr []) then (Threw (ArgumentError ''range cannot be an empty string''), w)
      else if truthy_string (IndexName_opt options) then
        (case GetItems fuel env Type (Some ident) rangeval (index_read_options options) w of
           (Returned items, w') \<Rightarrow> (Returned (first_or_undefined items), w')
         | (Threw error, w') \<Rightarrow> (Threw error, w')
         | (OutOfFuel, w') \<Rightarrow> (OutOfFuel, w'))
      else
        (case CreateKeyMapping Type ident rangeval of
           Inl error \<Rightarrow> (Threw error, w)
         | Inr Key \<Rightarrow>
             (case DynamoDbClient_send env
                     (GetItemCommand (GenerateTableName env Type) Key (ConsistentRead options)) w of
                (Inr out, w') \<Rightarrow>
                  (case Item out of
                     Some attributes \<Rightarrow> (Returned (Some (Assign Type attributes)), w')
                   | None \<Rightarrow>
                       if Required options \<noteq> Some False
                       then (Threw (Error ''Unable to retrieve''),
                             write_log (LogError ''GetItem: Error'' (Some (Error ''Unable to retrieve''))) w')
                       else (Returned None, w'))
              | (Inl error, w') \<Rightarrow>
                  if fault_name error = ''ResourceNotFoundException'' then
                    (case (if debugMode env
                           then ListTables env
                                  (write_log (LogWarn ''GetItem: ResourceNotFoundException - the Table does not exist'') w')
                           else (Returned [],
                                 write_log (LogWarn ''GetItem: ResourceNotFoundException - the Table does not exist'') w')) of
                       (Threw error2, w'') \<Rightarrow> (Threw error2, w'')
                     | (OutOfFuel, w'') \<Rightarrow> (OutOfFuel, w'')
                     | (Returned existingTables, w'') \<Rightarrow>
                         if IgnoreTableNotFound options = Some True then (Returned None, w'')
                         else (Threw error, w''))
                  else (Threw error, write_log (LogError (''GetItem: '' @ fault_name error) (Some error)) w'))))"

section \<open>Writing an item\<close>

record put_options =
  put_CreateTableIfNotExists :: "bool option"
  put_CreateSchemaOptions :: "create_schema_options option"
  put_Class :: "item option"

text \<open>
  The first statements of \<^verbatim>\<open>PutItem\<close>, up to the input of the command: the guard chosen from
  the version read before the increment, then the increment, then the marshalling of the
  item. A throw of \<^verbatim>\<open>IncrementVersion\<close> leaves the method before anything is sent.
\<close>

definition PutItemInput :: "'srv wrapper \<Rightarrow> item \<Rightarrow> fault + (put_item_input \<times> item)" where
  "PutItemInput env item0 =
     (case Version item0 of
        Some oldVersion \<Rightarrow>
          (case IncrementVersion item0 of
             Inl error \<Rightarrow> Inl error
           | Inr item1 \<Rightarrow>
               Inr (\<lparr>put_TableName = GenerateTableName env item1,
                     put_Item = marshall_item item1,
                     put_ConditionExpression =
                       (if oldVersion > INITIAL_VERSION_NUMBER then Some ''version = :version''
                        else Some ''attribute_not_exists(version)''),
                     put_ExpressionAttributeValues =
                       (if oldVersion > INITIAL_VERSION_NUMBER then Some [('':version'', VNum oldVersion)]
                        else None)\<rparr>, item1))
      | None \<Rightarrow>
          Inr (\<lparr>put_TableName = GenerateTableName env item0,
                put_Item = marshall_item item0,
                put_ConditionExpression = None,
                put_ExpressionAttributeValues = None\<rparr>, item0))"

text \<open>
  \<^verbatim>\<open>PutItem\<close> returns its result, the item as the call leaves it (the method mutates its
  argument) and the world.
\<close>

function PutItem ::
  "nat \<Rightarrow> 'srv wrapper \<Rightarrow> item \<Rightarrow> put_options \<Rightarrow> 'srv world
     \<Rightarrow> bool outcome \<times> item \<times> 'srv world" where
  "PutItem fuel env item0 options w =
     (case PutItemInput env item0 of
        Inl error \<Rightarrow> (Threw error, item0, w)
      | Inr (params, item1) \<Rightarrow>
          (case DynamoDbClient_send env (PutItemCommand params) w of
             (Inr data, w1) \<Rightarrow> (Returned True, item1, w1)
           | (Inl error, w1) \<Rightarrow>
               (case (case Version item0 of
                        Some oldVersion \<Rightarrow> SetVersion oldVersion item1
                      | None \<Rightarrow> Inr item1) of
                  Inl error2 \<Rightarrow> (Threw error2, item1, w1)
                | Inr item2 \<Rightarrow>
                    if truthy_bool (put_CreateTableIfNotExists options) then
                      (case put_Class options of
                         None \<Rightarrow>
                           (Threw (Error ''Cannot infer type to create table. Class is required in the options in order to create the table.''),
                            item2, w1)
                       | Some Class \<Rightarrow>
                           if fault_name error = ''ResourceNotFoundException'' then
                             (case ListTables env w1 of
                                (Threw error3, w2) \<Rightarrow> (Threw error3, item2, w2)
                              | (OutOfFuel, w2) \<Rightarrow> (OutOfFuel, item2, w2)
                              | (Returned existingTables, w2) \<Rightarrow>
                                  if find (\<lambda>t. t = put_TableName params) existingTables \<noteq> None then
                                    (Threw error, item2,
                                     write_log (LogError ''PutItem'' (Some error))
                                       (write_log (LogWarn ''Error while calling PutItem. Cannot try and create a table that already exists so assuming the error is something else...'') w2))
                                  else
                                    (case InitializeTable fuel env Class (Some existingTables)
                                            (put_CreateSchemaOptions options)
                                            (write_log (LogInfo ''PutItem: TableNotFound ... trying to create it for you...'') w2) of
                                       (Threw error4, w3) \<Rightarrow> (Threw error4, item2, w3)
                                     | (OutOfFuel, w3) \<Rightarrow> (OutOfFuel, item2, w3)
                                     | (Returned u, w3) \<Rightarrow>
                                         PutItem fuel env item2
                                           \<lparr>put_CreateTableIfNotExists = Some False,
                                            put_CreateSchemaOptions = None,
                                            put_Class = None\<rparr> w3))
                           else (Threw error, item2, write_log (LogError ''PutItem'' (Some error)) w1))
                    else (Threw error, item2, write_log (LogError ''PutItem'' (Some error)) w1))))"
  by pat_completeness auto
termination
  by (relation "measure (\<lambda>(fuel, env, item0, options, w).
        if truthy_bool (put_CreateTableIfNotExists options) then 1 else 0)") auto

section \<open>Call traces\<close>

text \<open>\<open>issued w w' cs\<close>: from the world \<open>w\<close> to the world \<open>w'\<close> the client received exactly the calls \<open>cs\<close>.\<close>

definition issued :: "'srv world \<Rightarrow> 'srv world \<Rightarrow> (command \<times> (fault + response)) list \<Rightarrow> bool" where
  "issued w w' cs = (calls w' = calls w @ cs)"

definition creates :: "(command \<times> (fault + response)) list \<Rightarrow> nat" where
  "creates cs = length (filter (\<lambda>c. is_CreateTable (fst c)) cs)"

definition puts :: "(command \<times> (fault + response)) list \<Rightarrow> nat" where
  "puts cs = length (filter (\<lambda>c. is_PutItem (fst c)) cs)"

text \<open>A call that listed the tables and was answered with a list that has the name \<open>n\<close>.\<close>

fun lists_table :: "string \<Rightarrow> command \<times> (fault + response) \<Rightarrow> bool" where
  "lists_table n (ListTablesCommand, Inr out) =
     (n \<in> set (case TableNames out of Some names \<Rightarrow> names | None \<Rightarrow> []))"
| "lists_table n c = False"

text \<open>The options of the one retry of \<^verbatim>\<open>PutItem\<close>.\<close>

definition retry_options :: put_options where
  "retry_options = \<lparr>put_CreateTableIfNotExists = Some False, put_CreateSchemaOptions = None, put_Class = None\<rparr>"

text \<open>The error of the two argument checks that open every read and \<^verbatim>\<open>DeleteItem\<close>.\<close>

definition empty_key_error :: "keyval \<Rightarrow> fault" where
  "empty_key_error ident =
     ArgumentError (if ident = VStr [] then ''id cannot be an empty string''
                    else ''range cannot be an empty string'')"

section \<open>Stand-ins for the storage service\<close>

text \<open>
  The theorems below hold for every client. To run the operations on concrete inputs, a few
  stand-ins for the service are defined here. They are not part of the repository: the first
  answers every command with one fault (the variant \<open>create_only_service\<close> accepts the
  creation of a table and nothing else); the second keeps the tables and their indexes (a new
  table is \<^verbatim>\<open>CREATING\<close> until it is described, an item command on a missing table is a
  \<^verbatim>\<open>ResourceNotFoundException\<close>); the third serves a data set in pages of a fixed size,
  the cursor being the offset of the next page.
\<close>

definition failing_service :: "fault \<Rightarrow> command \<Rightarrow> unit \<Rightarrow> (fault + response) \<times> unit" where
  "failing_service error c s = (Inl error, s)"

fun create_only_service :: "fault \<Rightarrow> command \<Rightarrow> unit \<Rightarrow> (fault + response) \<times> unit" where
  "create_only_service error (CreateTableCommand input) s =
     (Inr (empty_response\<lparr>TableDescription :=
             Some \<lparr>td_TableName = Some (cti_TableName input), td_TableStatus = Some ''CREATING'',
                   td_GlobalSecondaryIndexes = None\<rparr>\<rparr>), s)"
| "create_only_service error c s = (Inl error, s)"

definition ResourceNotFound :: fault where
  "ResourceNotFound = Fault ''ResourceNotFoundException'' ''Requested resource not found''"


definition has_table :: "string \<Rightarrow> table_description list \<Rightarrow> bool" where
  "has_table n ts = (find (\<lambda>t. td_TableName t = Some n) ts \<noteq> None)"

definition item_answer :: "string \<Rightarrow> table_description list \<Rightarrow> (fault + response) \<times> table_description list" where
  "item_answer n ts = (if has_table n ts then (Inr empty_response, ts) else (Inl ResourceNotFound, ts))"

definition change_indexes ::
  "string \<Rightarrow> (global_secondary_index list \<Rightarrow> global_secondary_index list) \<Rightarrow> table_description
     \<Rightarrow> table_description" where
  "change_indexes n f t =
     (if td_TableName t = Some n
      then t\<lparr>td_GlobalSecondaryIndexes :=
               Some (f (case td_GlobalSecondaryIndexes t of Some l \<Rightarrow> l | None \<Rightarrow> []))\<rparr>
      else t)"

fun table_service :: "command \<Rightarrow> table_description list \<Rightarrow> (fault + response) \<times> table_description list" where
  "table_service ListTablesCommand ts =
     (Inr (empty_response\<lparr>TableNames := Some (map (\<lambda>t. the (td_TableName t)) ts)\<rparr>), ts)"
| "table_service (DescribeTableCommand n) ts =
     (case find (\<lambda>t. td_TableName t = n) ts of
        Some t \<Rightarrow>
          (Inr (empty_response\<lparr>Table := Some (t\<lparr>td_TableStatus := Some ''ACTIVE''\<rparr>)\<rparr>),
           map (\<lambda>t. if td_TableName t = n then t\<lparr>td_TableStatus := Some ''ACTIVE''\<rparr> else t) ts)
      | None \<Rightarrow> (Inl ResourceNotFound, ts))"
| "table_service (CreateTableCommand input) ts =
     (if has_table (cti_TableName input) ts
      then (Inl (Fault ''ResourceInUseException'' ''Table already exists''), ts)
      else (Inr (empty_response\<lparr>TableDescription :=
                   Some \<lparr>td_TableName = Some (cti_TableName input), td_TableStatus = Some ''CREATING'',
                         td_GlobalSecondaryIndexes = cti_GlobalSecondaryIndexes input\<rparr>\<rparr>),
            ts @ [\<lparr>td_TableName = Some (cti_TableName input), td_TableStatus = Some ''CREATING'',
                   td_GlobalSecondaryIndexes = cti_GlobalSecondaryIndexes input\<rparr>]))"
| "table_service (UpdateTimeToLiveCommand n a) ts =
     (Inr (empty_response\<lparr>TimeToLiveEnabled := Some True\<rparr>), ts)"
| "table_service (UpdateTableCommand n defs (Delete i)) ts =
     (Inr empty_response, map (change_indexes n (filter (\<lambda>g. IndexName g \<noteq> i))) ts)"
| "table_service (UpdateTableCommand n defs (Create g)) ts =
     (Inr empty_response, map (change_indexes n (\<lambda>l. l @ [g])) ts)"
| "table_service (DeleteItemCommand n k r) ts = item_answer n ts"
| "table_service (ScanCommand params) ts = item_answer (p_TableName params) ts"
| "table_service (QueryCommand params) ts = item_answer (p_TableName params) ts"
| "table_service (GetItemCommand n k c) ts = item_answer n ts"
| "table_service (PutItemCommand params) ts = item_answer (put_TableName params) ts"

definition page_of :: "attrs list \<Rightarrow> nat \<Rightarrow> attrs option \<Rightarrow> response" where
  "page_of dataset pageSize cursor =
     (let start = (case cursor of Some [(k, VNum n)] \<Rightarrow> nat n | _ \<Rightarrow> 0)
      in empty_response
           \<lparr>Items := Some (take pageSize (drop start dataset)),
            LastEvaluatedKey :=
              (if start + pageSize < length dataset
               then Some [(''offset'', VNum (int (start + pageSize)))] else None)\<rparr>)"

fun paged_service :: "attrs list \<Rightarrow> nat \<Rightarrow> command \<Rightarrow> unit \<Rightarrow> (fault + response) \<times> unit" where
  "paged_service dataset pageSize (QueryCommand params) s =
     (Inr (page_of dataset pageSize (p_ExclusiveStartKey params)), s)"
| "paged_service dataset pageSize (ScanCommand params) s =
     (Inr (page_of dataset pageSize (p_ExclusiveStartKey params)), s)"
| "paged_service dataset pageSize c s = (Inr empty_response, s)"

text \<open>A wrapper around a client, a fresh world, and a small class of items to run them on.\<close>

definition wrapper_of :: "(command \<Rightarrow> 'srv \<Rightarrow> (fault + response) \<times> 'srv) \<Rightarrow> 'srv wrapper" where
  "wrapper_of client =
     \<lparr>TablePrefix = Some ''local'', debugMode = False, delayAfterCreateTable = 5000,
      client_send = client\<rparr>"

definition fresh_world :: "'srv \<Rightarrow> 'srv world" where
  "fresh_world s = \<lparr>server = s, calls = [], log = []\<rparr>"

definition note_item :: "string \<Rightarrow> int option \<Rightarrow> item" where
  "note_item ident v =
     \<lparr>BaseTableName = ''Notes'', IdFieldName = ''id'', RangeFieldName = None, TTLFieldName = None,
      LocalSecondaryIndexes = None, GlobalSecondaryIndexes = None,
      OverriddenAttributeDefinitions = None, version = v,
      properties = [(''id'', VStr ident), (''value'', VNum 1)]\<rparr>"

definition plain_put :: put_options where
  "plain_put = \<lparr>put_CreateTableIfNotExists = None, put_CreateSchemaOptions = None, put_Class = None\<rparr>"

definition plain_read :: read_options where
  "plain_read =
     \<lparr>Required = None, ConsistentRead = None, IndexName_opt = None,
      IndexPartitionKeyFieldName = None, IndexRangeFieldName = None, IgnoreTableNotFound = None,
      Limit = None, FilterExpression = None, ExpressionAttributeValues = None,
      ExclusiveStartKey = None, ScanIndexForward = None\<rparr>"

definition index_named :: "string \<Rightarrow> global_secondary_index" where
  "index_named n = \<lparr>IndexName = n, IndexKeySchema = [(n, ''HASH'')], Projection = ''ALL''\<rparr>"

text \<open>The outputs of the calls that were answered, in order.\<close>

fun outputs :: "(command \<times> (fault + response)) list \<Rightarrow> response list" where
  "outputs [] = []"
| "outputs ((c, Inr out) # cs) = out # outputs cs"
| "outputs ((c, Inl e) # cs) = outputs cs"

text \<open>What \<^verbatim>\<open>DescribeTable\<close> returns for an answer of the client, when it returns.\<close>

fun described :: "string \<Rightarrow> fault + response \<Rightarrow> table_description option" where
  "described n (Inr out) =
     (case Table out of
        Some t \<Rightarrow> if td_TableName t = Some n then Some t else None
      | None \<Rightarrow> None)"
| "described n (Inl e) = None"

text \<open>An item of the class of \<open>note_item\<close> that declares the indexes B and C.\<close>

definition indexed_note :: item where
  "indexed_note = (note_item [] None)\<lparr>GlobalSecondaryIndexes := Some [index_named ''B'', index_named ''C'']\<rparr>"

text \<open>The table of that class as the service has it, with the indexes A and B.\<close>

definition live_notes :: table_description where
  "live_notes =
     \<lparr>td_TableName = Some ''local.Notes'', td_TableStatus = Some ''ACTIVE'',
      td_GlobalSecondaryIndexes = Some [index_named ''A'', index_named ''B'']\<rparr>"



section \<open>The version of a record across a write\<close>

declare PutItem.simps [simp del]

lemma PutItemInput_version:
  assumes "version item0 = Some v" and "PutItemInput env item0 = Inr (params, item1)"
  shows "version item1 = Some (v + 1) \<and> INITIAL_VERSION_NUMBER \<le> v \<and> SetVersion v item1 = Inr item0"
  using assms
  by (auto simp: PutItemInput_def Version_def IncrementVersion_def SetVersion_def
      INITIAL_VERSION_NUMBER_def split: sum.splits option.splits if_splits)




section \<open>Calls made by the table operations\<close>

lemma issued_refl [simp]: "issued w w []"
  by (simp add: issued_def)

lemma issued_trans: "issued w w1 as \<Longrightarrow> issued w1 w2 bs \<Longrightarrow> issued w w2 (as @ bs)"
  by (simp add: issued_def)

lemma issued_log [simp]: "issued w (write_log e w') cs = issued w w' cs"
  "issued (write_log e w) w' cs = issued w w' cs"
  by (simp_all add: issued_def write_log_def)

lemma issued_unique: "issued w w' cs \<Longrightarrow> issued w w' ds \<Longrightarrow> cs = ds"
  by (simp add: issued_def)

lemma send_issued:
  assumes "DynamoDbClient_send env c w = (r, w')"
  shows "issued w w' [(c, r)]" and "log w' = log w" and "client_send env c (server w) = (r, server w')"
  using assms by (auto simp: DynamoDbClient_send_def issued_def split: prod.splits)

lemma ListTables_issued:
  assumes "ListTables env w = (r, w')"
  shows "\<exists>res. issued w w' [(ListTablesCommand, res)] \<and>
           (case res of
              Inr out \<Rightarrow> r = Returned (case TableNames out of Some names \<Rightarrow> names | None \<Rightarrow> [])
            | Inl e \<Rightarrow> r = Threw e)"
proof -
  obtain res w1 where s: "DynamoDbClient_send env ListTablesCommand w = (res, w1)"
    by (cases "DynamoDbClient_send env ListTablesCommand w")
  from assms s send_issued(1)[OF s] show ?thesis
    by (intro exI[of _ res]) (auto simp: ListTables_def split: sum.splits)
qed

lemma DescribeTable_issued:
  assumes "DescribeTable env n w = (r, w')"
  shows "\<exists>res. issued w w' [(DescribeTableCommand (Some n), res)]"
  using assms
  by (auto simp: DescribeTable_def split: prod.splits sum.splits option.splits if_splits dest!: send_issued(1))

lemma WaitForActive_issued:
  assumes "WaitForActive fuel env wfa td w = (r, w')"
  shows "\<exists>cs. issued w w' cs \<and> list_all (\<lambda>c. is_DescribeTable (fst c)) cs \<and>
           (\<forall>c e. (c, Inl e) \<in> set cs \<longrightarrow> r = Threw e)"
  using assms
proof (induction fuel arbitrary: td w)
  case 0
  then show ?case by (intro exI[of _ "[]"]) (auto split: if_splits)
next
  case (Suc fuel)
  show ?case
  proof (cases "wfa \<and> td_TableStatus td \<noteq> Some ''ACTIVE''")
    case False
    with Suc.prems show ?thesis by (intro exI[of _ "[]"]) auto
  next
    case True
    obtain res w1 where s: "DynamoDbClient_send env (DescribeTableCommand (td_TableName td)) w = (res, w1)"
      by (cases "DynamoDbClient_send env (DescribeTableCommand (td_TableName td)) w")
    note i1 = send_issued(1)[OF s]
    show ?thesis
    proof (cases res)
      case (Inl e)
      with Suc.prems True s i1 show ?thesis
        by (intro exI[of _ "[(DescribeTableCommand (td_TableName td), res)]"]) auto
    next
      case (Inr data)
      show ?thesis
      proof (cases "Table data")
        case None
        with Suc.prems True s i1 Inr show ?thesis
          by (intro exI[of _ "[(DescribeTableCommand (td_TableName td), res)]"]) auto
      next
        case (Some t)
        with Suc.prems True s Inr have "WaitForActive fuel env wfa t w1 = (r, w')" by simp
        from Suc.IH[OF this] obtain cs where cs: "issued w1 w' cs" "list_all (\<lambda>c. is_DescribeTable (fst c)) cs"
          "\<forall>c e. (c, Inl e) \<in> set cs \<longrightarrow> r = Threw e" by blast
        from issued_trans[OF i1 cs(1)] cs(2,3) Inr show ?thesis
          by (intro exI[of _ "[(DescribeTableCommand (td_TableName td), res)] @ cs"]) auto
      qed
    qed
  qed
qed

lemma EnableTTL_issued:
  assumes "EnableTTL env ttl td w = (r, w')"
  shows "\<exists>cs. issued w w' cs \<and> list_all (\<lambda>c. is_UpdateTimeToLive (fst c)) cs"
proof (cases "truthy_string ttl")
  case False
  with assms show ?thesis by (intro exI[of _ "[]"]) (auto simp: EnableTTL_def)
next
  case True
  obtain res w1 where s: "DynamoDbClient_send env (UpdateTimeToLiveCommand (td_TableName td) (the ttl)) w = (res, w1)"
    by (cases "DynamoDbClient_send env (UpdateTimeToLiveCommand (td_TableName td) (the ttl)) w")
  from assms True s send_issued(1)[OF s] show ?thesis
    by (intro exI[of _ "[(UpdateTimeToLiveCommand (td_TableName td) (the ttl), res)]"])
       (auto simp: EnableTTL_def split: sum.splits if_splits)
qed

lemma write_log_simps [simp]:
  "log (write_log e w) = log w @ [e]" "calls (write_log e w) = calls w" "server (write_log e w) = server w"
  by (simp_all add: write_log_def)

lemma creates_simps [simp]:
  "creates [] = 0" "creates (cs @ ds) = creates cs + creates ds"
  "creates ((c, r) # cs) = (if is_CreateTable c then 1 else 0) + creates cs"
  by (simp_all add: creates_def)

lemma puts_simps [simp]:
  "puts [] = 0" "puts (cs @ ds) = puts cs + puts ds"
  "puts ((c, r) # cs) = (if is_PutItem c then 1 else 0) + puts cs"
  by (simp_all add: puts_def)

lemma creates_none: "list_all (\<lambda>c. \<not> is_CreateTable (fst c)) cs \<Longrightarrow> creates cs = 0"
  by (induction cs) auto

lemma puts_none: "list_all (\<lambda>c. \<not> is_PutItem (fst c)) cs \<Longrightarrow> puts cs = 0"
  by (induction cs) auto

lemma lists_table_other: "\<not> is_ListTables (fst c) \<Longrightarrow> \<not> lists_table n c"
  by (cases "(n, c)" rule: lists_table.cases) auto

lemma list_all_weaken: "list_all P cs \<Longrightarrow> (\<And>c. P c \<Longrightarrow> Q c) \<Longrightarrow> list_all Q cs"
  by (induction cs) auto

text \<open>
  \<^verbatim>\<open>CreateTable\<close> sends the create command at most once, first, and then only describes the
  table and enables the time to live; a describe call that fails ends it with that fault.
\<close>

lemma CreateTable_issued:
  assumes run: "CreateTable fuel env input wfa ttl w = (r, w')"
  shows "\<exists>cs. issued w w' cs \<and>
           (cs = [] \<and> (\<exists>e. r = Threw e) \<or>
            (\<exists>res ds. cs = (CreateTableCommand input, res) # ds \<and>
               list_all (\<lambda>c. is_DescribeTable (fst c) \<or> is_UpdateTimeToLive (fst c)) ds \<and>
               (\<forall>c e. is_DescribeTable c \<longrightarrow> (c, Inl e) \<in> set ds \<longrightarrow> r = Threw e) \<and>
               (\<forall>e. res = Inl e \<longrightarrow> r = Returned None \<and> log w' = log w @ [LogError ''CreateTable'' (Some e)])))"
proof (cases "ttl = Some []")
  case True
  with run show ?thesis by (intro exI[of _ "[]"]) (auto simp: CreateTable_def)
next
  case False
  obtain res w1 where s: "DynamoDbClient_send env (CreateTableCommand input) w = (res, w1)"
    by (cases "DynamoDbClient_send env (CreateTableCommand input) w")
  note i1 = send_issued(1)[OF s]
  show ?thesis
  proof (cases "\<exists>data td. res = Inr data \<and> TableDescription data = Some td")
    case no: False
    with run False s i1 show ?thesis
      by (intro exI[of _ "[(CreateTableCommand input, res)]"])
         (auto simp: CreateTable_def split: sum.splits option.splits dest: send_issued(2))
  next
    case True
    then obtain data td where d: "res = Inr data" "TableDescription data = Some td" by blast
    obtain r2 w2 where wa: "WaitForActive fuel env wfa td w1 = (r2, w2)"
      by (cases "WaitForActive fuel env wfa td w1")
    from WaitForActive_issued[OF wa] obtain cs2 where cs2: "issued w1 w2 cs2"
      "list_all (\<lambda>c. is_DescribeTable (fst c)) cs2" "\<forall>c e. (c, Inl e) \<in> set cs2 \<longrightarrow> r2 = Threw e"
      by blast
    show ?thesis
    proof (cases "\<exists>active. r2 = Returned active")
      case nr: False
      with run False s d wa have rw: "\<And>e. r2 = Threw e \<Longrightarrow> r = Threw e" "w' = w2"
        by (auto simp: CreateTable_def split: outcome.splits)
      from issued_trans[OF i1 cs2(1)] cs2(2,3) rw d show ?thesis
        by (intro exI[of _ "[(CreateTableCommand input, res)] @ cs2"])
           (auto elim: list_all_weaken)
    next
      case True
      then obtain active where a: "r2 = Returned active" by blast
      let ?w2 = "if delayAfterCreateTable env \<noteq> 0 then write_log (LogInfo ''Pausing'') w2 else w2"
      from run False s d wa a have e: "EnableTTL env ttl active ?w2 = (r, w')"
        by (auto simp: CreateTable_def)
      from EnableTTL_issued[OF e] obtain cs3 where cs3: "issued ?w2 w' cs3"
        "list_all (\<lambda>c. is_UpdateTimeToLive (fst c)) cs3" by blast
      from cs3(1) have "issued w2 w' cs3" by (auto split: if_splits)
      from issued_trans[OF issued_trans[OF i1 cs2(1)] this]
      have i: "issued w w' ([(CreateTableCommand input, res)] @ cs2 @ cs3)" by simp
      have nofail: "\<And>c e. (c, Inl e) \<notin> set cs2" using cs2(3) a by auto
      have "\<And>c e. is_DescribeTable c \<Longrightarrow> (c, Inl e) \<notin> set cs3"
      proof
        fix c e assume c: "is_DescribeTable c" "(c, Inl e) \<in> set cs3"
        with cs3(2) have "is_UpdateTimeToLive c" by (auto simp: list_all_iff)
        with c(1) show False by (cases c) auto
      qed
      with i cs2(2) cs3(2) nofail d show ?thesis
        by (intro exI[of _ "[(CreateTableCommand input, res)] @ cs2 @ cs3"])
           (auto elim: list_all_weaken)
    qed
  qed
qed


lemma CreateTableIfNotExists_issued:
  assumes run: "CreateTableIfNotExists fuel env input wfa ttl w = (r, w')"
  shows "\<exists>res cs. issued w w' ((ListTablesCommand, res) # cs) \<and> creates cs \<le> 1 \<and> puts cs = 0 \<and>
           list_all (\<lambda>c. \<not> is_ListTables (fst c)) cs \<and>
           list_all (\<lambda>c. is_CreateTable (fst c) \<longrightarrow> fst c = CreateTableCommand input) cs \<and>
           (creates cs = 1 \<longrightarrow> \<not> lists_table (cti_TableName input) (ListTablesCommand, res)) \<and>
           ((\<exists>t. r = Returned (Some t)) \<longrightarrow> \<not> lists_table (cti_TableName input) (ListTablesCommand, res)
              \<longrightarrow> creates cs = 1)"
proof -
  obtain r1 w1 where l: "ListTables env w = (r1, w1)" by (cases "ListTables env w")
  from ListTables_issued[OF l] obtain res where res: "issued w w1 [(ListTablesCommand, res)]"
    "case res of Inr out \<Rightarrow> r1 = Returned (case TableNames out of Some names \<Rightarrow> names | None \<Rightarrow> [])
               | Inl e \<Rightarrow> r1 = Threw e" by blast
  show ?thesis
  proof (cases res)
    case (Inl e)
    with res(2) run l have "w' = w1" "r = Threw e" by (auto simp: CreateTableIfNotExists_def)
    with res(1) Inl show ?thesis
      by (intro exI[of _ res] exI[of _ "[]"]) auto
  next
    case (Inr out)
    define names where "names = (case TableNames out of Some names \<Rightarrow> names | None \<Rightarrow> [])"
    from Inr res(2) have r1: "r1 = Returned names" by (simp add: names_def)
    have lt: "lists_table (cti_TableName input) (ListTablesCommand, res) = (cti_TableName input \<in> set names)"
      using Inr by (simp add: names_def)
    show ?thesis
    proof (cases "cti_TableName input \<in> set names")
      case True
      with run l r1 have d: "DescribeTable env (cti_TableName input) w1 = (r, w')"
        by (simp add: CreateTableIfNotExists_def list_ex_iff)
      from DescribeTable_issued[OF d] obtain res2 where
        "issued w1 w' [(DescribeTableCommand (Some (cti_TableName input)), res2)]" by blast
      from issued_trans[OF res(1) this] True lt show ?thesis
        by (intro exI[of _ res] exI[of _ "[(DescribeTableCommand (Some (cti_TableName input)), res2)]"]) auto
    next
      case False
      with run l r1 have c: "CreateTable fuel env input wfa ttl w1 = (r, w')"
        by (simp add: CreateTableIfNotExists_def list_ex_iff)
      from CreateTable_issued[OF c] obtain cs where cs: "issued w1 w' cs"
        "cs = [] \<and> (\<exists>e. r = Threw e) \<or>
         (\<exists>res ds. cs = (CreateTableCommand input, res) # ds \<and>
               list_all (\<lambda>c. is_DescribeTable (fst c) \<or> is_UpdateTimeToLive (fst c)) ds)" by blast
      have shape: "creates cs \<le> 1 \<and> puts cs = 0 \<and> list_all (\<lambda>c. \<not> is_ListTables (fst c)) cs \<and>
                   list_all (\<lambda>c. is_CreateTable (fst c) \<longrightarrow> fst c = CreateTableCommand input) cs \<and>
                   ((\<exists>t. r = Returned (Some t)) \<longrightarrow> creates cs = 1)"
        using cs(2)
      proof
        assume "cs = [] \<and> (\<exists>e. r = Threw e)" then show ?thesis by auto
      next
        assume "\<exists>res ds. cs = (CreateTableCommand input, res) # ds \<and>
               list_all (\<lambda>c. is_DescribeTable (fst c) \<or> is_UpdateTimeToLive (fst c)) ds"
        then obtain res' ds where ds: "cs = (CreateTableCommand input, res') # ds"
          "list_all (\<lambda>c. is_DescribeTable (fst c) \<or> is_UpdateTimeToLive (fst c)) ds" by blast
        have "creates ds = 0" by (rule creates_none, rule list_all_weaken[OF ds(2)]) auto
        moreover have "puts ds = 0" by (rule puts_none, rule list_all_weaken[OF ds(2)]) auto
        moreover have "list_all (\<lambda>c. \<not> is_ListTables (fst c)) ds"
          by (rule list_all_weaken[OF ds(2)]) auto
        moreover have "list_all (\<lambda>c. is_CreateTable (fst c) \<longrightarrow> fst c = CreateTableCommand input) ds"
          by (rule list_all_weaken[OF ds(2)]) auto
        ultimately show ?thesis using ds(1) by auto
      qed
      from issued_trans[OF res(1) cs(1)] shape False lt show ?thesis
        by (intro exI[of _ res] exI[of _ cs]) auto
    qed
  qed
qed

lemma InitializeTable_issued:
  assumes run: "InitializeTable fuel env Type existing options w = (r, w')"
  shows "\<exists>cs. issued w w' cs \<and> creates cs \<le> 1 \<and> puts cs = 0 \<and>
           list_all (\<lambda>c. is_CreateTable (fst c) \<longrightarrow>
                          fst c = CreateTableCommand (CreateSchema env Type options)) cs \<and>
           (creates cs = 1 \<longrightarrow>
              \<not> list_ex (lists_table (GenerateTableName env Type)) cs \<and>
              (\<forall>names. existing = Some names \<longrightarrow> GenerateTableName env Type \<notin> set names)) \<and>
           (r = Returned () \<longrightarrow> \<not> list_ex (lists_table (GenerateTableName env Type)) cs \<longrightarrow>
              (\<forall>names. existing = Some names \<longrightarrow> GenerateTableName env Type \<notin> set names) \<longrightarrow>
              creates cs = 1)"
proof -
  let ?T = "GenerateTableName env Type"
  obtain r0 w0 where l: "(case existing of Some names \<Rightarrow> (Returned names, w) | None \<Rightarrow> ListTables env w) = (r0, w0)"
    by (cases "case existing of Some names \<Rightarrow> (Returned names, w) | None \<Rightarrow> ListTables env w")
  have first: "\<exists>cs0. issued w w0 cs0 \<and> creates cs0 = 0 \<and> puts cs0 = 0 \<and>
      list_all (\<lambda>c. \<not> is_CreateTable (fst c)) cs0 \<and>
      (\<forall>names. r0 = Returned names \<longrightarrow>
         (list_ex (lists_table ?T) cs0 \<or> (\<exists>ns. existing = Some ns \<and> ?T \<in> set ns)) = (?T \<in> set names))"
  proof (cases existing)
    case (Some names)
    with l show ?thesis by (intro exI[of _ "[]"]) auto
  next
    case None
    with l have "ListTables env w = (r0, w0)" by simp
    from ListTables_issued[OF this] obtain res where res: "issued w w0 [(ListTablesCommand, res)]"
      "case res of Inr out \<Rightarrow> r0 = Returned (case TableNames out of Some names \<Rightarrow> names | None \<Rightarrow> [])
               | Inl e \<Rightarrow> r0 = Threw e" by blast
    with None show ?thesis
      by (intro exI[of _ "[(ListTablesCommand, res)]"]) (auto split: sum.splits)
  qed
  then obtain cs0 where cs0: "issued w w0 cs0" "creates cs0 = 0" "puts cs0 = 0"
    "\<And>names. r0 = Returned names \<Longrightarrow>
       (list_ex (lists_table ?T) cs0 \<or> (\<exists>ns. existing = Some ns \<and> ?T \<in> set ns)) = (?T \<in> set names)"
    and nc0: "list_all (\<lambda>c. \<not> is_CreateTable (fst c)) cs0"
    by blast
  show ?thesis
  proof (cases "\<exists>names. r0 = Returned names \<and> ?T \<notin> set names")
    case False
    with run l have "w' = w0 \<or> w' = write_log (LogInfo ''InitializeTable: Table Exists'') w0"
      by (auto simp: InitializeTable_def split: outcome.splits if_splits)
    with cs0(1) have "issued w w' cs0" by auto
    moreover from run l False cs0(4) have "r = Returned () \<longrightarrow>
        list_ex (lists_table ?T) cs0 \<or> (\<exists>ns. existing = Some ns \<and> ?T \<in> set ns)"
      by (auto simp: InitializeTable_def split: outcome.splits if_splits)
    ultimately show ?thesis using cs0(2,3) nc0
      by (intro exI[of _ cs0]) (auto elim: list_all_weaken)
  next
    case True
    then obtain names where n: "r0 = Returned names" "?T \<notin> set names" by blast
    obtain r2 w2 where c: "CreateTableIfNotExists fuel env (CreateSchema env Type options) True
        (TTLFieldName Type) (write_log (LogInfo ''Initialize Table'') w0) = (r2, w2)"
      by (cases "CreateTableIfNotExists fuel env (CreateSchema env Type options) True
        (TTLFieldName Type) (write_log (LogInfo ''Initialize Table'') w0)")
    have T: "cti_TableName (CreateSchema env Type options) = ?T" by (simp add: CreateSchema_def)
    from CreateTableIfNotExists_issued[OF c, unfolded T] obtain res cs where
      cs: "issued w0 w2 ((ListTablesCommand, res) # cs)" "creates cs \<le> 1" "puts cs = 0"
        "list_all (\<lambda>c. \<not> is_ListTables (fst c)) cs"
        "creates cs = 1 \<longrightarrow> \<not> lists_table ?T (ListTablesCommand, res)"
        "list_all (\<lambda>c. is_CreateTable (fst c) \<longrightarrow>
                          fst c = CreateTableCommand (CreateSchema env Type options)) cs"
        "(\<exists>t. r2 = Returned (Some t)) \<longrightarrow> \<not> lists_table ?T (ListTablesCommand, res) \<longrightarrow> creates cs = 1"
      by auto
    from run l n c have rw: "w' = w2" "r = Returned () \<longrightarrow> (\<exists>t. r2 = Returned (Some t))"
      by (auto simp: InitializeTable_def split: outcome.splits option.splits)
    have nol: "\<not> list_ex (lists_table ?T) cs"
      using cs(4) by (auto simp: list_ex_iff list_all_iff dest: lists_table_other)
    from cs0(4)[OF n(1)] n(2) have no0: "\<not> list_ex (lists_table ?T) cs0"
      "\<And>ns. existing = Some ns \<Longrightarrow> ?T \<notin> set ns" by auto
    from issued_trans[OF cs0(1) cs(1)] rw(1)
    have "issued w w' (cs0 @ (ListTablesCommand, res) # cs)" by simp
    moreover have "list_all (\<lambda>c. is_CreateTable (fst c) \<longrightarrow>
                          fst c = CreateTableCommand (CreateSchema env Type options)) cs0"
      by (rule list_all_weaken[OF nc0]) simp
    ultimately show ?thesis using cs0(2,3) cs(2,3,5,6,7) rw(2) nol no0
      by (intro exI[of _ "cs0 @ (ListTablesCommand, res) # cs"]) (auto simp: list_ex_iff)
  qed
qed

section \<open>Ensuring a table twice\<close>

text \<open>
  C9. \<^verbatim>\<open>InitializeTable\<close> called twice in sequence for the same type: each call sends at most
  one create-table command, and sends one only when no listing it received has the generated
  table name. So when the first call returns on a service that did not list the table, and
  the service lists the table to the second call, the two calls together send exactly one
  create-table command.
\<close>

theorem InitializeTable_idempotent:
  assumes first: "InitializeTable fuel env Type None options w0 = (r1, w1)"
    and second: "InitializeTable fuel env Type None options w1 = (r2, w2)"
    and calls1: "issued w0 w1 cs1"
    and calls2: "issued w1 w2 cs2"
  shows "creates cs1 \<le> 1 \<and> creates cs2 \<le> 1 \<and>
         (creates cs1 = 1 \<longrightarrow> \<not> list_ex (lists_table (GenerateTableName env Type)) cs1) \<and>
         (creates cs2 = 1 \<longrightarrow> \<not> list_ex (lists_table (GenerateTableName env Type)) cs2) \<and>
         (r1 = Returned () \<and> \<not> list_ex (lists_table (GenerateTableName env Type)) cs1 \<and>
          list_ex (lists_table (GenerateTableName env Type)) cs2 \<longrightarrow>
            creates cs1 = 1 \<and> creates cs2 = 0 \<and> creates (cs1 @ cs2) = 1)"
proof -
  from InitializeTable_issued[OF first] calls1 have 1:
    "creates cs1 \<le> 1"
    "creates cs1 = 1 \<longrightarrow> \<not> list_ex (lists_table (GenerateTableName env Type)) cs1"
    "r1 = Returned () \<longrightarrow> \<not> list_ex (lists_table (GenerateTableName env Type)) cs1 \<longrightarrow> creates cs1 = 1"
    by (auto dest: issued_unique)
  from InitializeTable_issued[OF second] calls2 have 2:
    "creates cs2 \<le> 1"
    "creates cs2 = 1 \<longrightarrow> \<not> list_ex (lists_table (GenerateTableName env Type)) cs2"
    by (auto dest: issued_unique)
  from 1 2 show ?thesis by auto
qed

theorem InitializeTable_idempotent_witness:
  "\<exists>w1 w2 cs1 cs2.
     InitializeTable (Suc 0) (wrapper_of table_service) (note_item ''a1'' None) None None (fresh_world [])
       = (Returned (), w1) \<and>
     InitializeTable (Suc 0) (wrapper_of table_service) (note_item ''a1'' None) None None w1
       = (Returned (), w2) \<and>
     issued (fresh_world []) w1 cs1 \<and> issued w1 w2 cs2 \<and> creates (cs1 @ cs2) = 1"
proof -
  let ?env = "wrapper_of table_service"
  let ?T = "note_item ''a1'' None"
  let ?w0 = "fresh_world [] :: table_description list world"
  define run1 where "run1 = InitializeTable (Suc 0) ?env ?T None None ?w0"
  define w1 where "w1 = snd run1"
  define out where "out = empty_response\<lparr>TableNames := Some [''local.Notes'']\<rparr>"
  define w2 where "w2 = write_log (LogInfo ''InitializeTable: Table Exists'')
      (w1\<lparr>calls := calls w1 @ [(ListTablesCommand, Inr out)]\<rparr>)"
  have r1: "fst run1 = Returned ()" unfolding run1_def by code_simp
  have s1: "server w1 = [\<lparr>td_TableName = Some ''local.Notes'', td_TableStatus = Some ''ACTIVE'',
                          td_GlobalSecondaryIndexes = None\<rparr>]"
    unfolding w1_def run1_def by code_simp
  have c1: "\<not> list_ex (lists_table (GenerateTableName ?env ?T)) (calls w1)"
    unfolding w1_def run1_def by code_simp
  have a: "InitializeTable (Suc 0) ?env ?T None None ?w0 = (Returned (), w1)"
    using r1 by (simp add: w1_def run1_def prod_eq_iff)
  have b: "InitializeTable (Suc 0) ?env ?T None None w1 = (Returned (), w2)"
    by (simp add: InitializeTable_def ListTables_def DynamoDbClient_send_def wrapper_of_def s1
        GenerateTableName_def note_item_def w2_def out_def)
  have c: "issued ?w0 w1 (calls w1)" by (simp add: issued_def fresh_world_def)
  have d: "issued w1 w2 [(ListTablesCommand, Inr out)]" by (simp add: issued_def w2_def)
  have e: "list_ex (lists_table (GenerateTableName ?env ?T)) [(ListTablesCommand, Inr out)]"
    by (simp add: out_def GenerateTableName_def wrapper_of_def note_item_def)
  from InitializeTable_idempotent[OF a b c d] c1 e
  have "creates (calls w1 @ [(ListTablesCommand, Inr out)]) = 1" by blast
  with a b c d show ?thesis by blast
qed

section \<open>Calls made by a write\<close>

lemma PutItemInput_restore:
  assumes "PutItemInput env item0 = Inr (params, item1)"
  shows "(case Version item0 of Some oldVersion \<Rightarrow> SetVersion oldVersion item1 | None \<Rightarrow> Inr item1) = Inr item0"
proof (cases "version item0")
  case None
  with assms show ?thesis by (auto simp: PutItemInput_def Version_def)
next
  case (Some v)
  from PutItemInput_version[OF Some assms] Some show ?thesis by (simp add: Version_def)
qed

lemma PutItemInput_table:
  assumes "PutItemInput env item0 = Inr (params, item1)"
  shows "put_TableName params = GenerateTableName env item0"
  using assms
  by (auto simp: PutItemInput_def IncrementVersion_def SetVersion_def Version_def GenerateTableName_def
      split: option.splits sum.splits if_splits)

lemma PutItem_rejected:
  "PutItemInput env item0 = Inl e \<Longrightarrow> PutItem fuel env item0 options w = (Threw e, item0, w)"
  by (simp add: PutItem.simps)

lemma PutItem_sent:
  assumes "PutItemInput env item0 = Inr (params, item1)"
    and "DynamoDbClient_send env (PutItemCommand params) w = (Inr data, w1)"
  shows "PutItem fuel env item0 options w = (Returned True, item1, w1)"
  using assms by (simp add: PutItem.simps)

lemma PutItem_failed:
  assumes "PutItemInput env item0 = Inr (params, item1)"
    and "DynamoDbClient_send env (PutItemCommand params) w = (Inl error, w1)"
  shows "PutItem fuel env item0 options w =
     (if truthy_bool (put_CreateTableIfNotExists options) then
        (case put_Class options of
           None \<Rightarrow>
             (Threw (Error ''Cannot infer type to create table. Class is required in the options in order to create the table.''),
              item0, w1)
         | Some Class \<Rightarrow>
             if fault_name error = ''ResourceNotFoundException'' then
               (case ListTables env w1 of
                  (Threw error3, w2) \<Rightarrow> (Threw error3, item0, w2)
                | (OutOfFuel, w2) \<Rightarrow> (OutOfFuel, item0, w2)
                | (Returned existingTables, w2) \<Rightarrow>
                    if find (\<lambda>t. t = put_TableName params) existingTables \<noteq> None then
                      (Threw error, item0,
                       write_log (LogError ''PutItem'' (Some error))
                         (write_log (LogWarn ''Error while calling PutItem. Cannot try and create a table that already exists so assuming the error is something else...'') w2))
                    else
                      (case InitializeTable fuel env Class (Some existingTables)
                              (put_CreateSchemaOptions options)
                              (write_log (LogInfo ''PutItem: TableNotFound ... trying to create it for you...'') w2) of
                         (Threw error4, w3) \<Rightarrow> (Threw error4, item0, w3)
                       | (OutOfFuel, w3) \<Rightarrow> (OutOfFuel, item0, w3)
                       | (Returned u, w3) \<Rightarrow> PutItem fuel env item0 retry_options w3))
             else (Threw error, item0, write_log (LogError ''PutItem'' (Some error)) w1))
      else (Threw error, item0, write_log (LogError ''PutItem'' (Some error)) w1))"
  using assms PutItemInput_restore[OF assms(1)]
  by (subst PutItem.simps) (simp only: sum.case prod.case retry_options_def)

lemma PutItem_plain_issued:
  assumes plain: "\<not> truthy_bool (put_CreateTableIfNotExists options)"
    and input: "PutItemInput env item0 = Inr (params, item1)"
    and run: "PutItem fuel env item0 options w = (r, item', w')"
  shows "\<exists>res. issued w w' [(PutItemCommand params, res)] \<and>
           (case res of
              Inr data \<Rightarrow> r = Returned True
            | Inl e \<Rightarrow> r = Threw e \<and> log w' = log w @ [LogError ''PutItem'' (Some e)])"
proof -
  obtain res w1 where s: "DynamoDbClient_send env (PutItemCommand params) w = (res, w1)"
    by (cases "DynamoDbClient_send env (PutItemCommand params) w")
  show ?thesis
  proof (cases res)
    case (Inl e)
    from PutItem_failed[OF input s[unfolded Inl]] plain run send_issued(1,2)[OF s] Inl show ?thesis
      by (intro exI[of _ res]) auto
  next
    case (Inr data)
    from PutItem_sent[OF input s[unfolded Inr]] run send_issued(1)[OF s] Inr show ?thesis
      by (intro exI[of _ res]) auto
  qed
qed

lemma PutItem_heal_issued:
  assumes input: "PutItemInput env item0 = Inr (params, item1)"
    and failed: "DynamoDbClient_send env (PutItemCommand params) w = (Inl error, w1)"
    and notfound: "fault_name error = ''ResourceNotFoundException''"
    and optin: "truthy_bool (put_CreateTableIfNotExists options)"
    and cls: "put_Class options = Some Class"
    and run: "PutItem fuel env item0 options w = (r, item', w')"
  shows "\<exists>res cs.
      issued w w' ((PutItemCommand params, Inl error) # (ListTablesCommand, res) # cs) \<and>
      creates cs \<le> 1 \<and> puts cs \<le> 1 \<and>
      list_all (\<lambda>c. is_CreateTable (fst c) \<longrightarrow>
                  fst c = CreateTableCommand (CreateSchema env Class (put_CreateSchemaOptions options))) cs \<and>
      (lists_table (put_TableName params) (ListTablesCommand, res) \<longrightarrow> cs = [] \<and> r = Threw error) \<and>
      (puts cs = 1 \<longrightarrow>
         (\<exists>res' cs' w3. cs = cs' @ [(PutItemCommand params, res')] \<and>
            PutItem fuel env item0 retry_options w3 = (r, item', w') \<and>
            issued w3 w' [(PutItemCommand params, res')])) \<and>
      (puts cs = 0 \<longrightarrow> r \<noteq> Returned True) \<and>
      (\<forall>names w2 w3.
         ListTables env w1 = (Returned names, w2) \<and> put_TableName params \<notin> set names \<and>
         InitializeTable fuel env Class (Some names) (put_CreateSchemaOptions options)
           (write_log (LogInfo ''PutItem: TableNotFound ... trying to create it for you...'') w2)
           = (Returned (), w3) \<longrightarrow> puts cs = 1)"
proof -
  let ?T = "put_TableName params"
  let ?info = "LogInfo ''PutItem: TableNotFound ... trying to create it for you...''"
  let ?schema = "CreateSchema env Class (put_CreateSchemaOptions options)"
  note i0 = send_issued(1)[OF failed]
  obtain r1 w2 where l: "ListTables env w1 = (r1, w2)" by (cases "ListTables env w1")
  from ListTables_issued[OF l] obtain res where res: "issued w1 w2 [(ListTablesCommand, res)]"
    "case res of Inr out \<Rightarrow> r1 = Returned (case TableNames out of Some names \<Rightarrow> names | None \<Rightarrow> [])
             | Inl e \<Rightarrow> r1 = Threw e" by blast
  from issued_trans[OF i0 res(1)]
  have i2: "issued w w2 [(PutItemCommand params, Inl error), (ListTablesCommand, res)]" by simp
  have f: "\<And>xs. (\<exists>y. find (\<lambda>t. t = ?T) xs = Some y) = (?T \<in> set xs)"
    by (simp only: not_None_eq[symmetric] find_None_iff) auto
  note unfold = PutItem_failed[OF input failed, of fuel options, unfolded run, symmetric]
  from res(2) consider (err) e where "res = Inl e" "r1 = Threw e"
    | (ok) names where "r1 = Returned names" "lists_table ?T (ListTablesCommand, res) = (?T \<in> set names)"
    by (cases res) auto
  then have known: "(\<exists>e. r1 = Threw e \<and> \<not> lists_table ?T (ListTablesCommand, res)) \<or>
      (\<exists>names. r1 = Returned names \<and> lists_table ?T (ListTablesCommand, res) = (?T \<in> set names))"
    by cases auto
  show ?thesis
  proof (cases "\<exists>names. r1 = Returned names \<and> ?T \<notin> set names")
    case False
    from known show ?thesis
    proof
      assume "\<exists>e. r1 = Threw e \<and> \<not> lists_table ?T (ListTablesCommand, res)"
      then obtain e where e: "r1 = Threw e" "\<not> lists_table ?T (ListTablesCommand, res)" by blast
      from unfold optin cls notfound l e have "w' = w2" "r = Threw e" by auto
      with i2 e l show ?thesis
        by (intro exI[of _ res] exI[of _ "[]"]) auto
    next
      assume "\<exists>names. r1 = Returned names \<and> lists_table ?T (ListTablesCommand, res) = (?T \<in> set names)"
      then obtain names where n: "r1 = Returned names"
        "lists_table ?T (ListTablesCommand, res) = (?T \<in> set names)" by blast
      with False have "?T \<in> set names" by simp
      with unfold optin cls notfound l n have "issued w2 w' []" "r = Threw error"
        by (auto simp: f)
      with issued_trans[OF i2 this(1)] l n \<open>?T \<in> set names\<close> show ?thesis
        by (intro exI[of _ res] exI[of _ "[]"]) auto
    qed
  next
    case True
    then obtain names where n: "r1 = Returned names" "?T \<notin> set names" by blast
    have nlt: "\<not> lists_table ?T (ListTablesCommand, res)"
      using n known by auto
    obtain r3 w3 where ini: "InitializeTable fuel env Class (Some names) (put_CreateSchemaOptions options)
        (write_log ?info w2) = (r3, w3)"
      by (cases "InitializeTable fuel env Class (Some names) (put_CreateSchemaOptions options)
        (write_log ?info w2)")
    from InitializeTable_issued[OF ini] obtain cs3 where cs3: "issued w2 w3 cs3" "creates cs3 \<le> 1"
      "puts cs3 = 0"
      "list_all (\<lambda>c. is_CreateTable (fst c) \<longrightarrow> fst c = CreateTableCommand ?schema) cs3"
      by auto
    show ?thesis
    proof (cases "r3 = Returned ()")
      case False
      from unfold optin cls notfound l n ini False
      have "w' = w3" "r \<noteq> Returned True"
        by (auto simp: f split: outcome.splits)
      with issued_trans[OF i2 cs3(1)] cs3 nlt l n ini False show ?thesis
        by (intro exI[of _ res] exI[of _ cs3]) auto
    next
      case True
      from unfold optin cls notfound l n ini True
      have retry: "PutItem fuel env item0 retry_options w3 = (r, item', w')"
        by (auto simp: f)
      from PutItem_plain_issued[OF _ input retry] obtain res' where
        r': "issued w3 w' [(PutItemCommand params, res')]"
        by (auto simp: retry_options_def)
      from issued_trans[OF issued_trans[OF i2 cs3(1)] r']
      have "issued w w' ((PutItemCommand params, Inl error) # (ListTablesCommand, res) #
                          (cs3 @ [(PutItemCommand params, res')]))" by simp
      with cs3 nlt retry r' show ?thesis
        by (intro exI[of _ res] exI[of _ "cs3 @ [(PutItemCommand params, res')]"]) auto
    qed
  qed
qed

section \<open>Self-healing of a write\<close>

text \<open>
  C5. When the write of \<^verbatim>\<open>PutItem\<close> fails with a table-not-found fault, the caller set
  \<^verbatim>\<open>CreateTableIfNotExists\<close> and gave the record's \<^verbatim>\<open>Class\<close>: the next call lists the tables;
  if the listing has the table name nothing more is sent and the fault is thrown again;
  otherwise the table is provisioned (at most one create-table command, for the schema of
  the class) and, once \<^verbatim>\<open>InitializeTable\<close> has returned, the write is retried by the call
  \<^verbatim>\<open>PutItem(item, {CreateTableIfNotExists: false})\<close>, which sends the same write once and
  nothing else. There is never a second retry or a second provisioning, and without the
  retry the call does not succeed.
\<close>

theorem PutItem_self_heals_once:
  assumes input: "PutItemInput env item0 = Inr (params, item1)"
    and failed: "DynamoDbClient_send env (PutItemCommand params) w = (Inl error, w1)"
    and notfound: "fault_name error = ''ResourceNotFoundException''"
    and optin: "truthy_bool (put_CreateTableIfNotExists options)"
    and cls: "put_Class options = Some Class"
    and same: "BaseTableName Class = BaseTableName item0"
    and run: "PutItem fuel env item0 options w = (r, item', w')"
  shows "\<exists>res cs.
      issued w w' ((PutItemCommand params, Inl error) # (ListTablesCommand, res) # cs) \<and>
      creates cs \<le> 1 \<and> puts cs \<le> 1 \<and>
      list_all (\<lambda>c. is_CreateTable (fst c) \<longrightarrow>
                  fst c = CreateTableCommand (CreateSchema env Class (put_CreateSchemaOptions options)) \<and>
                  cti_TableName (CreateSchema env Class (put_CreateSchemaOptions options)) = put_TableName params) cs \<and>
      (lists_table (put_TableName params) (ListTablesCommand, res) \<longrightarrow> cs = [] \<and> r = Threw error) \<and>
      (puts cs = 1 \<longrightarrow>
         (\<exists>res' cs' w3. cs = cs' @ [(PutItemCommand params, res')] \<and>
            PutItem fuel env item0 retry_options w3 = (r, item', w') \<and>
            issued w3 w' [(PutItemCommand params, res')])) \<and>
      (puts cs = 0 \<longrightarrow> r \<noteq> Returned True) \<and>
      (\<forall>names w2 w3.
         ListTables env w1 = (Returned names, w2) \<and> put_TableName params \<notin> set names \<and>
         InitializeTable fuel env Class (Some names) (put_CreateSchemaOptions options)
           (write_log (LogInfo ''PutItem: TableNotFound ... trying to create it for you...'') w2)
           = (Returned (), w3) \<longrightarrow> puts cs = 1)"
proof -
  have tn: "cti_TableName (CreateSchema env Class (put_CreateSchemaOptions options)) = put_TableName params"
    using PutItemInput_table[OF input] same by (simp add: CreateSchema_def GenerateTableName_def)
  from PutItem_heal_issued[OF input failed notfound optin cls run] obtain res cs where
    h: "issued w w' ((PutItemCommand params, Inl error) # (ListTablesCommand, res) # cs) \<and>
      creates cs \<le> 1 \<and> puts cs \<le> 1 \<and>
      list_all (\<lambda>c. is_CreateTable (fst c) \<longrightarrow>
                  fst c = CreateTableCommand (CreateSchema env Class (put_CreateSchemaOptions options))) cs \<and>
      (lists_table (put_TableName params) (ListTablesCommand, res) \<longrightarrow> cs = [] \<and> r = Threw error) \<and>
      (puts cs = 1 \<longrightarrow>
         (\<exists>res' cs' w3. cs = cs' @ [(PutItemCommand params, res')] \<and>
            PutItem fuel env item0 retry_options w3 = (r, item', w') \<and>
            issued w3 w' [(PutItemCommand params, res')])) \<and>
      (puts cs = 0 \<longrightarrow> r \<noteq> Returned True) \<and>
      (\<forall>names w2 w3.
         ListTables env w1 = (Returned names, w2) \<and> put_TableName params \<notin> set names \<and>
         InitializeTable fuel env Class (Some names) (put_CreateSchemaOptions options)
           (write_log (LogInfo ''PutItem: TableNotFound ... trying to create it for you...'') w2)
           = (Returned (), w3) \<longrightarrow> puts cs = 1)"
    by (elim exE)
  then have "list_all (\<lambda>c. is_CreateTable (fst c) \<longrightarrow>
                  fst c = CreateTableCommand (CreateSchema env Class (put_CreateSchemaOptions options))) cs"
    by (elim conjE)
  then have "list_all (\<lambda>c. is_CreateTable (fst c) \<longrightarrow>
                  fst c = CreateTableCommand (CreateSchema env Class (put_CreateSchemaOptions options)) \<and>
                  cti_TableName (CreateSchema env Class (put_CreateSchemaOptions options)) = put_TableName params) cs"
    by (rule list_all_weaken) (simp add: tn)
  with h show ?thesis
    by (intro exI[of _ res] exI[of _ cs]) (elim conjE, intro conjI, assumption+)
qed

theorem PutItem_self_heals_once_witness:
  "\<exists>item' w' res cs.
     PutItem (Suc 0) (wrapper_of table_service) (note_item ''a1'' (Some (- 1)))
         \<lparr>put_CreateTableIfNotExists = Some True, put_CreateSchemaOptions = None,
          put_Class = Some (note_item [] (Some (- 1)))\<rparr> (fresh_world [])
       = (Returned True, item', w') \<and>
     issued (fresh_world []) w'
       ((PutItemCommand \<lparr>put_TableName = ''local.Notes'',
            put_Item = [(''id'', VStr ''a1''), (''value'', VNum 1), (''version'', VNum 0)],
            put_ConditionExpression = Some ''attribute_not_exists(version)'',
            put_ExpressionAttributeValues = None\<rparr>, Inl ResourceNotFound)
        # (ListTablesCommand, res) # cs) \<and>
     puts cs = 1 \<and> creates cs \<le> 1"
proof -
  let ?env = "wrapper_of table_service"
  let ?it = "note_item ''a1'' (Some (- 1))"
  let ?opts = "\<lparr>put_CreateTableIfNotExists = Some True, put_CreateSchemaOptions = None,
          put_Class = Some (note_item [] (Some (- 1)))\<rparr>"
  let ?w0 = "fresh_world [] :: table_description list world"
  let ?params = "\<lparr>put_TableName = ''local.Notes'',
            put_Item = [(''id'', VStr ''a1''), (''value'', VNum 1), (''version'', VNum 0)],
            put_ConditionExpression = Some ''attribute_not_exists(version)'',
            put_ExpressionAttributeValues = None\<rparr>"
  have input: "PutItemInput ?env ?it = Inr (?params, note_item ''a1'' (Some 0))"
    by code_simp
  have failed: "DynamoDbClient_send ?env (PutItemCommand ?params) ?w0 =
      (Inl ResourceNotFound, \<lparr>server = [], calls = [(PutItemCommand ?params, Inl ResourceNotFound)], log = []\<rparr>)"
    by code_simp
  have nf: "fault_name ResourceNotFound = ''ResourceNotFoundException''"
    by (simp add: ResourceNotFound_def)
  obtain r item' w' where run: "PutItem (Suc 0) ?env ?it ?opts ?w0 = (r, item', w')"
    by (metis prod_cases3)
  have "fst (PutItem (Suc 0) ?env ?it ?opts ?w0) = Returned True" by code_simp
  with run have r: "r = Returned True" by simp
  from PutItem_self_heals_once[OF input failed nf _ _ _ run, of "note_item [] (Some (- 1))"]
  obtain res cs where
    "issued ?w0 w' ((PutItemCommand ?params, Inl ResourceNotFound) # (ListTablesCommand, res) # cs)"
    "creates cs \<le> 1" "puts cs \<le> 1" "puts cs = 0 \<longrightarrow> r \<noteq> Returned True"
    by (auto simp: note_item_def)
  with r run show ?thesis by (intro exI[of _ item'] exI[of _ w'] exI[of _ res] exI[of _ cs]) auto
qed



section \<open>The guard of the conditional write\<close>




section \<open>The error of a failed write\<close>




section \<open>Empty keys\<close>

text \<open>
  C3 (as amended). \<^verbatim>\<open>GetItem\<close>, \<^verbatim>\<open>GetItems\<close>, \<^verbatim>\<open>Query\<close>, \<^verbatim>\<open>Scan\<close> and \<^verbatim>\<open>DeleteItem\<close> reject an
  empty-string id or an empty-string range value with an \<^verbatim>\<open>ArgumentError\<close> and leave the
  world as it was: no call reaches the storage client. (\<^verbatim>\<open>PutItem\<close> has no such check.)
\<close>

theorem empty_key_rejected:
  assumes "ident = VStr [] \<or> rangeval = Some (VStr [])"
  shows "GetItem fuel env Type ident rangeval options w = (Threw (empty_key_error ident), w) \<and>
         GetItems fuel env Type (Some ident) rangeval options w = (Threw (empty_key_error ident), w) \<and>
         Query fuel env Type ident rangeval options w = (Threw (empty_key_error ident), w) \<and>
         Scan fuel env Type (Some ident) rangeval options w = (Threw (empty_key_error ident), w) \<and>
         DeleteItem env Type ident rangeval returnValue w = (Threw (empty_key_error ident), w) \<and>
         (rangeval = Some (VStr []) \<longrightarrow>
            GetItems fuel env Type None rangeval options w
              = (Threw (ArgumentError ''range cannot be an empty string''), w) \<and>
            Scan fuel env Type None rangeval options w
              = (Threw (ArgumentError ''range cannot be an empty string''), w))"
  using assms
  by (auto simp: GetItem_def GetItems_def Query_def Scan_def DeleteItem_def empty_key_error_def)

text \<open>
  \<^verbatim>\<open>PutItem\<close> takes the item, not an id and a range value, and checks neither: an item whose
  id is the empty string is marshalled and sent.
\<close>

theorem PutItem_empty_key_counterexample:
  "map_of (properties (note_item [] None)) (IdFieldName (note_item [] None)) = Some (VStr []) \<and>
   PutItem 0 (wrapper_of (paged_service [] 1)) (note_item [] None) plain_put (fresh_world ())
     = (Returned True, note_item [] None,
        \<lparr>server = (),
         calls = [(PutItemCommand \<lparr>put_TableName = ''local.Notes'',
                     put_Item = [(''id'', VStr []), (''value'', VNum 1)],
                     put_ConditionExpression = None, put_ExpressionAttributeValues = None\<rparr>,
                   Inr empty_response)],
         log = []\<rparr>)"
  by code_simp

theorem empty_key_rejected_witness:
  "GetItem 1 (wrapper_of table_service) (note_item [] None) (VStr []) None plain_read (fresh_world [])
     = (Threw (ArgumentError ''id cannot be an empty string''), fresh_world []) \<and>
   DeleteItem (wrapper_of table_service) (note_item [] None) (VStr ''a1'') (Some (VStr [])) NONE (fresh_world [])
     = (Threw (ArgumentError ''range cannot be an empty string''), fresh_world []) \<and>
   calls (fresh_world [] :: table_description list world) = []"
  using empty_key_rejected[of "VStr []" None 1 "wrapper_of table_service" "note_item [] None" plain_read
      "fresh_world []" NONE]
    empty_key_rejected[of "VStr ''a1''" "Some (VStr [])" 1 "wrapper_of table_service" "note_item [] None" plain_read
      "fresh_world []" NONE]
  by (simp add: fresh_world_def empty_key_error_def)

section \<open>Errors while a table is created\<close>

text \<open>
  C4 (as amended). In \<^verbatim>\<open>CreateTable\<close>, an error raised by a \<^verbatim>\<open>DescribeTable\<close> call of the loop
  that waits for \<^verbatim>\<open>ACTIVE\<close> ends the operation with that fault thrown to the caller. An
  error raised by the create-table request itself is logged, and \<^verbatim>\<open>CreateTable\<close> returns
  \<^verbatim>\<open>undefined\<close>.
\<close>

theorem CreateTable_errors:
  assumes run: "CreateTable fuel env input waitForActive ttlAttributeName w = (r, w')"
    and tr: "issued w w' cs"
  shows "(\<forall>c e. is_DescribeTable c \<and> (c, Inl e) \<in> set cs \<longrightarrow> r = Threw e) \<and>
         (\<forall>e. (CreateTableCommand input, Inl e) \<in> set cs \<longrightarrow>
            r = Returned None \<and> log w' = log w @ [LogError ''CreateTable'' (Some e)])"
proof -
  from CreateTable_issued[OF run] obtain cs' where cs': "issued w w' cs'"
    "cs' = [] \<and> (\<exists>e. r = Threw e) \<or>
     (\<exists>res ds. cs' = (CreateTableCommand input, res) # ds \<and>
        list_all (\<lambda>c. is_DescribeTable (fst c) \<or> is_UpdateTimeToLive (fst c)) ds \<and>
        (\<forall>c e. is_DescribeTable c \<longrightarrow> (c, Inl e) \<in> set ds \<longrightarrow> r = Threw e) \<and>
        (\<forall>e. res = Inl e \<longrightarrow> r = Returned None \<and> log w' = log w @ [LogError ''CreateTable'' (Some e)]))"
    by blast
  from issued_unique[OF tr cs'(1)] have eq: "cs = cs'" .
  from cs'(2) show ?thesis
  proof
    assume "cs' = [] \<and> (\<exists>e. r = Threw e)"
    with eq show ?thesis by simp
  next
    assume "\<exists>res ds. cs' = (CreateTableCommand input, res) # ds \<and>
        list_all (\<lambda>c. is_DescribeTable (fst c) \<or> is_UpdateTimeToLive (fst c)) ds \<and>
        (\<forall>c e. is_DescribeTable c \<longrightarrow> (c, Inl e) \<in> set ds \<longrightarrow> r = Threw e) \<and>
        (\<forall>e. res = Inl e \<longrightarrow> r = Returned None \<and> log w' = log w @ [LogError ''CreateTable'' (Some e)])"
    then obtain res ds where ds: "cs' = (CreateTableCommand input, res) # ds"
      "list_all (\<lambda>c. is_DescribeTable (fst c) \<or> is_UpdateTimeToLive (fst c)) ds"
      "\<forall>c e. is_DescribeTable c \<longrightarrow> (c, Inl e) \<in> set ds \<longrightarrow> r = Threw e"
      "\<forall>e. res = Inl e \<longrightarrow> r = Returned None \<and> log w' = log w @ [LogError ''CreateTable'' (Some e)]"
      by blast
    have nocreate: "\<And>e. (CreateTableCommand input, Inl e) \<notin> set ds"
      using ds(2) by (auto simp: list_all_iff)
    from ds(1,3,4) eq nocreate show ?thesis by auto
  qed
qed

text \<open>
  As stated, the claim fails for the create request: its \<^verbatim>\<open>catch\<close> block logs the fault and
  returns \<^verbatim>\<open>undefined\<close>, a value and not an error.
\<close>

theorem CreateTable_swallows_create_error_counterexample:
  "CreateTable 0 (wrapper_of (failing_service (Fault ''LimitExceededException'' ''Too many tables'')))
       (CreateSchema (wrapper_of (failing_service (Fault ''LimitExceededException'' ''Too many tables'')))
          (note_item [] None) None)
       True None (fresh_world ())
     = (Returned None,
        \<lparr>server = (),
         calls = [(CreateTableCommand
                     (CreateSchema (wrapper_of (failing_service (Fault ''LimitExceededException'' ''Too many tables'')))
                        (note_item [] None) None),
                   Inl (Fault ''LimitExceededException'' ''Too many tables''))],
         log = [LogError ''CreateTable'' (Some (Fault ''LimitExceededException'' ''Too many tables''))]\<rparr>)"
  by code_simp

theorem CreateTable_errors_witness:
  "fst (CreateTable (Suc 0) (wrapper_of (create_only_service (Fault ''InternalServerError'' ''try again'')))
          (CreateSchema (wrapper_of table_service) (note_item [] None) None) True None (fresh_world ()))
     = Threw (Fault ''InternalServerError'' ''try again'') \<and>
   fst (CreateTable (Suc 0) (wrapper_of (failing_service (Fault ''InternalServerError'' ''try again'')))
          (CreateSchema (wrapper_of table_service) (note_item [] None) None) True None (fresh_world ()))
     = Returned None"
proof -
  let ?e = "Fault ''InternalServerError'' ''try again''"
  let ?input = "CreateSchema (wrapper_of table_service) (note_item [] None) None"
  let ?run1 = "CreateTable (Suc 0) (wrapper_of (create_only_service ?e)) ?input True None (fresh_world ())"
  let ?run2 = "CreateTable (Suc 0) (wrapper_of (failing_service ?e)) ?input True None (fresh_world ())"
  have a1: "CreateTable (Suc 0) (wrapper_of (create_only_service ?e)) ?input True None (fresh_world ())
      = (fst ?run1, snd ?run1)" by simp
  have b1: "issued (fresh_world ()) (snd ?run1) (calls (snd ?run1))"
    by (simp add: issued_def fresh_world_def)
  have c1: "is_DescribeTable (DescribeTableCommand (Some ''local.Notes'')) \<and>
            (DescribeTableCommand (Some ''local.Notes''), Inl ?e) \<in> set (calls (snd ?run1))"
    by code_simp
  have a2: "CreateTable (Suc 0) (wrapper_of (failing_service ?e)) ?input True None (fresh_world ())
      = (fst ?run2, snd ?run2)" by simp
  have b2: "issued (fresh_world ()) (snd ?run2) (calls (snd ?run2))"
    by (simp add: issued_def fresh_world_def)
  have c2: "(CreateTableCommand ?input, Inl ?e) \<in> set (calls (snd ?run2))"
    by code_simp
  from CreateTable_errors[OF a1 b1] c1 have "fst ?run1 = Threw ?e" by blast
  moreover from CreateTable_errors[OF a2 b2] c2 have "fst ?run2 = Returned None" by blast
  ultimately show ?thesis by blast
qed

section \<open>Reading one item through an index\<close>



section \<open>Reconciling the indexes of a table\<close>

lemma DescribeTable_described:
  assumes "DescribeTable env n w = (r, w')"
  shows "\<exists>res. issued w w' [(DescribeTableCommand (Some n), res)] \<and> (\<forall>d. r = Returned d \<longrightarrow> d = described n res)"
proof -
  obtain res w1 where s: "DynamoDbClient_send env (DescribeTableCommand (Some n)) w = (res, w1)"
    by (cases "DynamoDbClient_send env (DescribeTableCommand (Some n)) w")
  from assms s send_issued(1)[OF s] show ?thesis
    by (intro exI[of _ res]) (auto simp: DescribeTable_def split: sum.splits option.splits if_splits)
qed

lemma find_by_name: "(find (\<lambda>c. f c = a) xs = None) = (a \<notin> f ` set xs)"
  by (induction xs) auto

lemma DeleteIndexes_issued:
  assumes "DeleteIndexes env T cur live w = (Returned u, w')"
  shows "\<exists>cs. issued w w' cs \<and>
           map fst cs = map (\<lambda>g. UpdateTableCommand T None (Delete (IndexName g)))
                          (filter (\<lambda>g. IndexName g \<notin> IndexName ` set (case cur of Some l \<Rightarrow> l | None \<Rightarrow> [])) live)"
  using assms
proof (induction live arbitrary: w)
  case Nil
  then show ?case by (intro exI[of _ "[]"]) auto
next
  case (Cons gsi rest)
  let ?declared = "case cur of Some l \<Rightarrow> l | None \<Rightarrow> []"
  have fnd: "(find (\<lambda>c. IndexName c = IndexName gsi) ?declared = None) = (IndexName gsi \<notin> IndexName ` set ?declared)"
    by (rule find_by_name)
  show ?case
  proof (cases "IndexName gsi \<in> IndexName ` set ?declared")
    case True
    with Cons.prems fnd have "DeleteIndexes env T cur rest w = (Returned u, w')" by simp
    from Cons.IH[OF this] True show ?thesis by auto
  next
    case False
    obtain res w1 where s: "DynamoDbClient_send env (UpdateTableCommand T None (Delete (IndexName gsi))) w = (res, w1)"
      by (cases "DynamoDbClient_send env (UpdateTableCommand T None (Delete (IndexName gsi))) w")
    with Cons.prems fnd False have r: "DeleteIndexes env T cur rest w1 = (Returned u, w')"
      by (auto split: sum.splits)
    from Cons.IH[OF r] obtain cs where cs: "issued w1 w' cs"
      "map fst cs = map (\<lambda>g. UpdateTableCommand T None (Delete (IndexName g)))
                          (filter (\<lambda>g. IndexName g \<notin> IndexName ` set ?declared) rest)" by blast
    from issued_trans[OF send_issued(1)[OF s] cs(1)] cs(2) False show ?thesis
      by (intro exI[of _ "(UpdateTableCommand T None (Delete (IndexName gsi)), res) # cs"]) auto
  qed
qed

lemma CreateIndexes_issued:
  assumes "CreateIndexes env T defs live declared w = (Returned u, w')"
  shows "\<exists>cs. issued w w' cs \<and>
           map fst cs = map (\<lambda>g. UpdateTableCommand T (Some defs) (Create g))
                          (filter (\<lambda>g. IndexName g \<notin> IndexName ` set (case live of Some l \<Rightarrow> l | None \<Rightarrow> [])) declared)"
  using assms
proof (induction declared arbitrary: w)
  case Nil
  then show ?case by (intro exI[of _ "[]"]) auto
next
  case (Cons gsi rest)
  let ?live = "case live of Some l \<Rightarrow> l | None \<Rightarrow> []"
  have fnd: "(find (\<lambda>c. IndexName c = IndexName gsi) ?live = None) = (IndexName gsi \<notin> IndexName ` set ?live)"
    by (rule find_by_name)
  show ?case
  proof (cases "IndexName gsi \<in> IndexName ` set ?live")
    case True
    with Cons.prems fnd have "CreateIndexes env T defs live rest w = (Returned u, w')" by simp
    from Cons.IH[OF this] True show ?thesis by auto
  next
    case False
    obtain res w1 where s: "DynamoDbClient_send env (UpdateTableCommand T (Some defs) (Create gsi)) w = (res, w1)"
      by (cases "DynamoDbClient_send env (UpdateTableCommand T (Some defs) (Create gsi)) w")
    with Cons.prems fnd False have r: "CreateIndexes env T defs live rest w1 = (Returned u, w')"
      by (auto split: sum.splits)
    from Cons.IH[OF r] obtain cs where cs: "issued w1 w' cs"
      "map fst cs = map (\<lambda>g. UpdateTableCommand T (Some defs) (Create g))
                          (filter (\<lambda>g. IndexName g \<notin> IndexName ` set ?live) rest)" by blast
    from issued_trans[OF send_issued(1)[OF s] cs(1)] cs(2) False show ?thesis
      by (intro exI[of _ "(UpdateTableCommand T (Some defs) (Create gsi), res) # cs"]) auto
  qed
qed

text \<open>
  C7. \<^verbatim>\<open>UpdateTable\<close>, when it returns, has sent exactly these calls, in this order: one
  describe; one update call that deletes one index for each index of the described table
  whose \<^verbatim>\<open>IndexName\<close> no declared index has; one update call that creates one index, with
  the item's attribute definitions, for each declared index whose \<^verbatim>\<open>IndexName\<close> no index
  of the described table has; one more describe, whose answer is the description returned.
  Indexes are compared by name only, and every update command carries a single index
  update. With the live indexes A, B and the declared indexes B, C that is one delete (A)
  and one create (C), and a service that applies them then describes the indexes B, C.
\<close>

theorem UpdateTable_reconciles:
  assumes run: "UpdateTable env it w = (Returned d, w')"
    and tr: "issued w w' cs"
  shows "\<exists>table.
      described (GenerateTableName env it) (snd (hd cs)) = Some table \<and>
      map fst cs =
        DescribeTableCommand (Some (GenerateTableName env it)) #
        map (\<lambda>g. UpdateTableCommand (GenerateTableName env it) None (Delete (IndexName g)))
          (filter (\<lambda>g. IndexName g \<notin> IndexName ` set (case GlobalSecondaryIndexes it of Some l \<Rightarrow> l | None \<Rightarrow> []))
             (case td_GlobalSecondaryIndexes table of Some l \<Rightarrow> l | None \<Rightarrow> [])) @
        map (\<lambda>g. UpdateTableCommand (GenerateTableName env it) (Some (AttributeDefinitions it)) (Create g))
          (filter (\<lambda>g. IndexName g \<notin> IndexName ` set (case td_GlobalSecondaryIndexes table of Some l \<Rightarrow> l | None \<Rightarrow> []))
             (case GlobalSecondaryIndexes it of Some l \<Rightarrow> l | None \<Rightarrow> [])) @
        [DescribeTableCommand (Some (GenerateTableName env it))] \<and>
      d = described (GenerateTableName env it) (snd (last cs))"
proof -
  let ?T = "GenerateTableName env it"
  obtain r1 w1 where d1: "DescribeTable env ?T w = (r1, w1)" by (cases "DescribeTable env ?T w")
  from run d1 obtain table where t: "r1 = Returned (Some table)"
    by (auto simp: UpdateTable_def split: outcome.splits option.splits)
  from DescribeTable_described[OF d1] t obtain res1 where
    res1: "issued w w1 [(DescribeTableCommand (Some ?T), res1)]" "Some table = described ?T res1" by auto
  let ?live = "case td_GlobalSecondaryIndexes table of Some l \<Rightarrow> l | None \<Rightarrow> []"
  let ?declared = "case GlobalSecondaryIndexes it of Some l \<Rightarrow> l | None \<Rightarrow> []"
  obtain r2 w2 where d2: "DeleteIndexes env ?T (GlobalSecondaryIndexes it) ?live w1 = (r2, w2)"
    by (cases "DeleteIndexes env ?T (GlobalSecondaryIndexes it) ?live w1")
  from run d1 t d2 have r2: "r2 = Returned ()"
    by (auto simp: UpdateTable_def split: outcome.splits)
  obtain r3 w3 where d3: "CreateIndexes env ?T (AttributeDefinitions it) (td_GlobalSecondaryIndexes table)
      ?declared w2 = (r3, w3)"
    by (cases "CreateIndexes env ?T (AttributeDefinitions it) (td_GlobalSecondaryIndexes table) ?declared w2")
  from run d1 t d2 r2 d3 have r3: "r3 = Returned ()" and d4: "DescribeTable env ?T w3 = (Returned d, w')"
    by (auto simp: UpdateTable_def split: outcome.splits)
  from DeleteIndexes_issued[OF d2[unfolded r2]] obtain cs2 where cs2: "issued w1 w2 cs2"
    "map fst cs2 = map (\<lambda>g. UpdateTableCommand ?T None (Delete (IndexName g)))
                     (filter (\<lambda>g. IndexName g \<notin> IndexName ` set ?declared) ?live)" by blast
  from CreateIndexes_issued[OF d3[unfolded r3]] obtain cs3 where cs3: "issued w2 w3 cs3"
    "map fst cs3 = map (\<lambda>g. UpdateTableCommand ?T (Some (AttributeDefinitions it)) (Create g))
                     (filter (\<lambda>g. IndexName g \<notin> IndexName ` set ?live) ?declared)" by blast
  from DescribeTable_described[OF d4] obtain res4 where
    res4: "issued w3 w' [(DescribeTableCommand (Some ?T), res4)]" "d = described ?T res4" by auto
  from issued_trans[OF issued_trans[OF issued_trans[OF res1(1) cs2(1)] cs3(1)] res4(1)]
  have "issued w w' ((DescribeTableCommand (Some ?T), res1) # cs2 @ cs3 @ [(DescribeTableCommand (Some ?T), res4)])"
    by simp
  from issued_unique[OF tr this]
  have cs: "cs = (DescribeTableCommand (Some ?T), res1) # cs2 @ cs3 @ [(DescribeTableCommand (Some ?T), res4)]" .
  show ?thesis
    using res1(2) res4(2) cs2(2) cs3(2)
    by (intro exI[of _ table]) (simp add: cs)
qed

theorem UpdateTable_reconciles_witness:
  "\<exists>d w' cs.
     UpdateTable (wrapper_of table_service) indexed_note (fresh_world [live_notes]) = (Returned (Some d), w') \<and>
     issued (fresh_world [live_notes]) w' cs \<and>
     map fst cs =
       [DescribeTableCommand (Some ''local.Notes''),
        UpdateTableCommand ''local.Notes'' None (Delete ''A''),
        UpdateTableCommand ''local.Notes'' (Some [(''id'', ''S'')]) (Create (index_named ''C'')),
        DescribeTableCommand (Some ''local.Notes'')] \<and>
     set (map IndexName (case td_GlobalSecondaryIndexes d of Some l \<Rightarrow> l | None \<Rightarrow> [])) = {''B'', ''C''}"
proof -
  let ?env = "wrapper_of table_service"
  let ?w0 = "fresh_world [live_notes]"
  let ?d = "\<lparr>td_TableName = Some ''local.Notes'', td_TableStatus = Some ''ACTIVE'',
      td_GlobalSecondaryIndexes = Some [index_named ''B'', index_named ''C'']\<rparr>"
  define run where "run = UpdateTable ?env indexed_note ?w0"
  have r: "fst run = Returned (Some ?d)" unfolding run_def by code_simp
  then have a: "UpdateTable ?env indexed_note ?w0 = (Returned (Some ?d), snd run)"
    by (simp add: run_def prod_eq_iff)
  have b: "issued ?w0 (snd run) (calls (snd run))" by (simp add: issued_def fresh_world_def)
  have c: "described (GenerateTableName ?env indexed_note) (snd (hd (calls (snd run)))) = Some live_notes"
    unfolding run_def by code_simp
  have g: "GenerateTableName ?env indexed_note = ''local.Notes''"
    "AttributeDefinitions indexed_note = [(''id'', ''S'')]"
    "GlobalSecondaryIndexes indexed_note = Some [index_named ''B'', index_named ''C'']"
    "td_GlobalSecondaryIndexes live_notes = Some [index_named ''A'', index_named ''B'']"
    by code_simp+
  from UpdateTable_reconciles[OF a b] obtain table where
    tm: "described (GenerateTableName ?env indexed_note) (snd (hd (calls (snd run)))) = Some table \<and>
      map fst (calls (snd run)) =
        DescribeTableCommand (Some (GenerateTableName ?env indexed_note)) #
        map (\<lambda>g. UpdateTableCommand (GenerateTableName ?env indexed_note) None (Delete (IndexName g)))
          (filter (\<lambda>g. IndexName g \<notin> IndexName ` set (case GlobalSecondaryIndexes indexed_note of Some l \<Rightarrow> l | None \<Rightarrow> []))
             (case td_GlobalSecondaryIndexes table of Some l \<Rightarrow> l | None \<Rightarrow> [])) @
        map (\<lambda>g. UpdateTableCommand (GenerateTableName ?env indexed_note) (Some (AttributeDefinitions indexed_note)) (Create g))
          (filter (\<lambda>g. IndexName g \<notin> IndexName ` set (case td_GlobalSecondaryIndexes table of Some l \<Rightarrow> l | None \<Rightarrow> []))
             (case GlobalSecondaryIndexes indexed_note of Some l \<Rightarrow> l | None \<Rightarrow> [])) @
        [DescribeTableCommand (Some (GenerateTableName ?env indexed_note))] \<and>
      Some ?d = described (GenerateTableName ?env indexed_note) (snd (last (calls (snd run))))"
    by (elim exE)
  have t: "described (GenerateTableName ?env indexed_note) (snd (hd (calls (snd run)))) = Some table"
    using tm by (elim conjE)
  have m: "map fst (calls (snd run)) =
        DescribeTableCommand (Some (GenerateTableName ?env indexed_note)) #
        map (\<lambda>g. UpdateTableCommand (GenerateTableName ?env indexed_note) None (Delete (IndexName g)))
          (filter (\<lambda>g. IndexName g \<notin> IndexName ` set (case GlobalSecondaryIndexes indexed_note of Some l \<Rightarrow> l | None \<Rightarrow> []))
             (case td_GlobalSecondaryIndexes table of Some l \<Rightarrow> l | None \<Rightarrow> [])) @
        map (\<lambda>g. UpdateTableCommand (GenerateTableName ?env indexed_note) (Some (AttributeDefinitions indexed_note)) (Create g))
          (filter (\<lambda>g. IndexName g \<notin> IndexName ` set (case td_GlobalSecondaryIndexes table of Some l \<Rightarrow> l | None \<Rightarrow> []))
             (case GlobalSecondaryIndexes indexed_note of Some l \<Rightarrow> l | None \<Rightarrow> [])) @
        [DescribeTableCommand (Some (GenerateTableName ?env indexed_note))]"
    using tm by (elim conjE)
  from t c have table: "table = live_notes" by simp
  have "map fst (calls (snd run)) =
       [DescribeTableCommand (Some ''local.Notes''),
        UpdateTableCommand ''local.Notes'' None (Delete ''A''),
        UpdateTableCommand ''local.Notes'' (Some [(''id'', ''S'')]) (Create (index_named ''C'')),
        DescribeTableCommand (Some ''local.Notes'')]"
    unfolding m table g by (simp add: index_named_def)
  with a b show ?thesis
    by (intro exI[of _ ?d] exI[of _ "snd run"] exI[of _ "calls (snd run)"]) (simp add: index_named_def)
qed

section \<open>Pages of a read\<close>

lemma outputs_append [simp]: "outputs (cs @ ds) = outputs cs @ outputs ds"
  by (induction cs rule: outputs.induct) auto




lemma issued_index_warning [simp]:
  "issued (index_warning env options w) w' cs = issued w w' cs"
  "issued w (index_warning env options w') cs = issued w w' cs"
  by (simp_all add: index_warning_def)






end
